theory Spec2Isabelle
  imports Complex_Main "HOL-Library.AList" "HOL-Library.Option_ord" "HOL-Library.Multiset"
begin

section \<open>Values, documents and collections\<close>

text \<open>
  The application (\<^verbatim>\<open>app.py\<close>) keeps its data in MongoDB collections of
  free-form documents. A document is a Python dict: an insertion-ordered association of
  field names to values. The values this program stores are strings, booleans, integers
  (the ad counters), lists of strings (\<^verbatim>\<open>requirements\<close>), \<^verbatim>\<open>None\<close>,
  datetimes (microseconds since the epoch) and ObjectIds.

  Strings are lists of characters, one \<^typ>\<open>char\<close> per character of the Python
  string (ASCII text).
\<close>

type_synonym object_id = "nat list"

datatype val =
    VNone
  | VBool bool
  | VInt int
  | VStr string
  | VList "string list"
  | VTime int
  | VOid object_id

type_synonym document = "(string \<times> val) list"

type_synonym collection = "document list"

text \<open>Exceptions the handlers can meet, and the responses they produce.\<close>

datatype exn = InvalidId | DuplicateKeyError | WriteError | OperationFailure | ValueError
  | TypeError | KeyError | UploadError

datatype response =
    JsonSuccess
  | JsonError nat string
  | Redirect string
  | Unhandled exn

text \<open>Python's truth value of an object, and \<^verbatim>\<open>a or b\<close> (with \<^verbatim>\<open>b\<close>
  already evaluated).\<close>

fun truthy :: "val \<Rightarrow> bool" where
  "truthy VNone = False"
| "truthy (VBool b) = b"
| "truthy (VInt n) = (n \<noteq> 0)"
| "truthy (VStr s) = (s \<noteq> [])"
| "truthy (VList xs) = (xs \<noteq> [])"
| "truthy (VTime t) = True"
| "truthy (VOid i) = True"

definition py_or :: "val \<Rightarrow> val \<Rightarrow> val" where
  "py_or a b = (if truthy a then a else b)"

text \<open>\<^verbatim>\<open>d.get(k)\<close> and \<^verbatim>\<open>d.get(k, default)\<close>.\<close>

definition dict_get :: "document \<Rightarrow> string \<Rightarrow> val" where
  "dict_get d k = (case map_of d k of None \<Rightarrow> VNone | Some v \<Rightarrow> v)"

definition dict_get_default :: "document \<Rightarrow> string \<Rightarrow> val \<Rightarrow> val" where
  "dict_get_default d k dflt = (case map_of d k of None \<Rightarrow> dflt | Some v \<Rightarrow> v)"

subsection \<open>ObjectIds\<close>

text \<open>
  \<^verbatim>\<open>bson.ObjectId\<close>. An id is kept as the sequence of the hexadecimal digits of
  its bytes (24 digits for the 12 bytes of a proper id), so upper and lower case denote
  the same id. \<^verbatim>\<open>ObjectId(s)\<close> takes a string of 24 characters and hands it to
  \<^verbatim>\<open>bytes.fromhex\<close>, which reads pairs of hexadecimal digits and skips ASCII
  whitespace before a pair and at the end; everything else raises \<^verbatim>\<open>InvalidId\<close>.
  So a string of 24 characters with blanks between digit pairs is accepted and denotes an
  id of fewer than 12 bytes. \<^verbatim>\<open>ObjectId.is_valid(s)\<close> holds when
  \<^verbatim>\<open>ObjectId(s)\<close> does not raise.
\<close>

definition hex_value :: "char \<Rightarrow> nat option" where
  "hex_value c =
     (let n = (of_char c :: nat) in
      if 48 \<le> n \<and> n \<le> 57 then Some (n - 48)
      else if 97 \<le> n \<and> n \<le> 102 then Some (n - 87)
      else if 65 \<le> n \<and> n \<le> 70 then Some (n - 55)
      else None)"

text \<open>\<^verbatim>\<open>Py_ISSPACE\<close>: blank, tab, line feed, vertical tab, form feed, carriage
  return.\<close>

definition Py_ISSPACE :: "char \<Rightarrow> bool" where
  "Py_ISSPACE c = (let n = (of_char c :: nat) in (9 \<le> n \<and> n \<le> 13) \<or> n = 32)"

fun fromhex :: "string \<Rightarrow> nat list option" where
  "fromhex [] = Some []"
| "fromhex [c] = (if Py_ISSPACE c then Some [] else None)"
| "fromhex (c # d # cs) =
     (if Py_ISSPACE c then fromhex (d # cs)
      else (case hex_value c of
              None \<Rightarrow> None
            | Some hi \<Rightarrow>
                (case hex_value d of
                   None \<Rightarrow> None
                 | Some lo \<Rightarrow> map_option (\<lambda>rest. hi # lo # rest) (fromhex cs))))"

definition ObjectId :: "string \<Rightarrow> exn + object_id" where
  "ObjectId s =
     (if length s = 24
      then (case fromhex s of None \<Rightarrow> Inl InvalidId | Some digits \<Rightarrow> Inr digits)
      else Inl InvalidId)"

definition ObjectId_is_valid :: "string \<Rightarrow> bool" where
  "ObjectId_is_valid s = (s \<noteq> [] \<and> (case ObjectId s of Inl e \<Rightarrow> False | Inr oid \<Rightarrow> True))"


subsection \<open>The driver's operations on one collection\<close>

text \<open>
  A collection is the list of its documents in natural (insertion) order. The query
  \<^verbatim>\<open>{k: v}\<close> selects the documents whose field \<^verbatim>\<open>k\<close> holds \<^verbatim>\<open>v\<close>,
  or holds a list with the element \<^verbatim>\<open>v\<close>; the query value \<^verbatim>\<open>None\<close> also
  selects the documents without the field. Field names are plain top-level names.
\<close>

definition field_is :: "string \<Rightarrow> val \<Rightarrow> document \<Rightarrow> bool" where
  "field_is k v d =
     (case map_of d k of
        None \<Rightarrow> v = VNone
      | Some (VList xs) \<Rightarrow> v = VList xs \<or> (case v of VStr s \<Rightarrow> s \<in> set xs | _ \<Rightarrow> False)
      | Some w \<Rightarrow> w = v)"

text \<open>\<^verbatim>\<open>$inc\<close>: an absent field is created with the increment; a field that is
  not a number makes the write fail.\<close>

definition inc_op :: "string \<Rightarrow> int \<Rightarrow> document \<Rightarrow> exn + document" where
  "inc_op k n d =
     (case map_of d k of
        None \<Rightarrow> Inr (AList.update k (VInt n) d)
      | Some (VInt m) \<Rightarrow> Inr (AList.update k (VInt (m + n)) d)
      | Some _ \<Rightarrow> Inl WriteError)"

text \<open>\<^verbatim>\<open>$set\<close>: every given field is written; \<^verbatim>\<open>_id\<close> is immutable.\<close>

definition set_op :: "document \<Rightarrow> document \<Rightarrow> exn + document" where
  "set_op fields d =
     (case map_of fields ''_id'' of
        None \<Rightarrow> Inr (fold (\<lambda>p. AList.update (fst p) (snd p)) fields d)
      | Some i \<Rightarrow>
          if map_of d ''_id'' = Some i
          then Inr (fold (\<lambda>p. AList.update (fst p) (snd p)) fields d)
          else Inl WriteError)"

text \<open>\<^verbatim>\<open>update_one\<close> changes the first document the query selects and reports
  \<^verbatim>\<open>matched_count\<close>.\<close>

fun update_one ::
  "(document \<Rightarrow> bool) \<Rightarrow> (document \<Rightarrow> exn + document) \<Rightarrow> collection \<Rightarrow> exn + (nat \<times> collection)"
where
  "update_one q u [] = Inr (0, [])"
| "update_one q u (d # ds) =
     (if q d then (case u d of Inl e \<Rightarrow> Inl e | Inr d' \<Rightarrow> Inr (1, d' # ds))
      else (case update_one q u ds of
              Inl e \<Rightarrow> Inl e
            | Inr (n, ds') \<Rightarrow> Inr (n, d # ds')))"

text \<open>
  \<^verbatim>\<open>insert_one\<close> gives a document without \<^verbatim>\<open>_id\<close> the ObjectId the driver
  generates (\<open>fresh\<close>, unused by construction of ObjectIds) and returns
  \<^verbatim>\<open>inserted_id\<close>; a document that brings its own \<^verbatim>\<open>_id\<close> is refused when
  that id is taken.
\<close>

definition insert_one :: "object_id \<Rightarrow> document \<Rightarrow> collection \<Rightarrow> exn + (val \<times> collection)" where
  "insert_one fresh doc coll =
     (case map_of doc ''_id'' of
        None \<Rightarrow> Inr (VOid fresh, coll @ [AList.update ''_id'' (VOid fresh) doc])
      | Some i \<Rightarrow>
          if list_ex (field_is ''_id'' i) coll then Inl DuplicateKeyError
          else Inr (i, coll @ [doc]))"

fun delete_one :: "(document \<Rightarrow> bool) \<Rightarrow> collection \<Rightarrow> collection" where
  "delete_one q [] = []"
| "delete_one q (d # ds) = (if q d then ds else d # delete_one q ds)"

definition delete_many :: "(document \<Rightarrow> bool) \<Rightarrow> collection \<Rightarrow> collection" where
  "delete_many q coll = filter (\<lambda>d. \<not> q d) coll"

definition find_one :: "(document \<Rightarrow> bool) \<Rightarrow> collection \<Rightarrow> document option" where
  "find_one q coll = List.find q coll"

text \<open>Projections: \<^verbatim>\<open>{k: 0, ...}\<close> drops the named fields; \<^verbatim>\<open>{k: 1, ...}\<close>
  keeps the named fields and \<^verbatim>\<open>_id\<close>.\<close>

definition exclude_fields :: "string list \<Rightarrow> document \<Rightarrow> document" where
  "exclude_fields ks d = filter (\<lambda>p. fst p \<notin> set ks) d"

definition include_fields :: "string list \<Rightarrow> document \<Rightarrow> document" where
  "include_fields ks d = filter (\<lambda>p. fst p = ''_id'' \<or> fst p \<in> set ks) d"

section \<open>The database and the request environment\<close>

record db =
  jobs_collection :: collection
  workshops_collection :: collection
  courses_collection :: collection
  hackathons_collection :: collection
  roadmaps_collection :: collection
  websites_collection :: collection
  ads_collection :: collection
  ad_clicks_collection :: collection

text \<open>
  What a request handler reads from outside the database: the clock
  (\<^verbatim>\<open>datetime.utcnow()\<close>; one instant per request), the session, the client
  address, the ObjectIds the driver generates in this request (numbered in order of use)
  and the image service: \<^verbatim>\<open>cloudinary.uploader.upload\<close> returns a result dict or
  raises. The database server's own algorithms are taken from outside as well:
  case-insensitive regular-expression search (\<open>None\<close> for a pattern the server
  rejects), text-index search (the hits with their scores, best first, or the error of
  a collection without text index) and the random \<^verbatim>\<open>$sample\<close> stage.
\<close>

record env =
  utcnow :: int
  session_user_id :: "string option"
  session_is_admin :: bool
  remote_addr :: "string option"
  new_object_id :: "nat \<Rightarrow> object_id"
  cloudinary_upload :: "string \<Rightarrow> exn + (string \<times> string) list"
  regex_search :: "string \<Rightarrow> (string \<Rightarrow> bool) option"
  text_search :: "string \<Rightarrow> collection \<Rightarrow> exn + (val \<times> document) list"
  sample :: "nat \<Rightarrow> collection \<Rightarrow> collection"

definition opt_str :: "string option \<Rightarrow> val" where
  "opt_str x = (case x of None \<Rightarrow> VNone | Some s \<Rightarrow> VStr s)"

section \<open>Ad tracking\<close>

definition click_event :: "env \<Rightarrow> object_id \<Rightarrow> document" where
  "click_event env oid =
     [(''ad_id'', VOid oid),
      (''clicked_at'', VTime (utcnow env)),
      (''user_id'', opt_str (session_user_id env)),
      (''ip_address'', opt_str (remote_addr env))]"

text \<open>\<^verbatim>\<open>ad_click\<close>: the whole body runs under \<^verbatim>\<open>try\<close>; any exception
  becomes the 500 answer, with the database as it was when the exception was raised.\<close>

definition ad_click :: "env \<Rightarrow> string \<Rightarrow> db \<Rightarrow> response \<times> db" where
  "ad_click env ad_id st =
     (if \<not> ObjectId_is_valid ad_id then (JsonError 400 ''Invalid ad ID'', st)
      else case ObjectId ad_id of
        Inl e \<Rightarrow> (JsonError 500 ''Server error'', st)
      | Inr oid \<Rightarrow>
          (case update_one (field_is ''_id'' (VOid oid)) (inc_op ''clicks'' 1) (ads_collection st) of
             Inl e \<Rightarrow> (JsonError 500 ''Server error'', st)
           | Inr (matched_count, ads') \<Rightarrow>
               if matched_count = 0
               then (JsonError 404 ''Ad not found'', st\<lparr>ads_collection := ads'\<rparr>)
               else
                 (case insert_one (new_object_id env 0) (click_event env oid)
                         (ad_clicks_collection st) of
                    Inl e \<Rightarrow> (JsonError 500 ''Server error'', st\<lparr>ads_collection := ads'\<rparr>)
                  | Inr (_, clicks') \<Rightarrow>
                      (JsonSuccess,
                       st\<lparr>ads_collection := ads', ad_clicks_collection := clicks'\<rparr>))))"

text \<open>The value of an ad's click counter: an absent field counts as 0 (as \<^verbatim>\<open>$inc\<close>
  reads it); a field that holds no number is no counter.\<close>

definition click_counter :: "document \<Rightarrow> int option" where
  "click_counter ad =
     (case map_of ad ''clicks'' of
        None \<Rightarrow> Some 0
      | Some (VInt m) \<Rightarrow> Some m
      | Some _ \<Rightarrow> None)"

section \<open>Form processing\<close>

text \<open>
  A request carries the submitted form (a multi-dict, in submission order) and, when the
  form has a file input named \<^verbatim>\<open>image\<close>, that file's name (empty when no file was
  chosen).
\<close>

record request =
  form :: "(string \<times> string) list"
  image_file :: "string option"

text \<open>\<^verbatim>\<open>request.form.to_dict()\<close> keeps the first value of every field.\<close>

definition to_dict :: "(string \<times> string) list \<Rightarrow> document" where
  "to_dict f = map (\<lambda>p. (fst p, VStr (snd p))) (AList.clearjunk f)"

definition replace_char :: "char \<Rightarrow> string \<Rightarrow> string \<Rightarrow> string" where
  "replace_char c r s = concat (map (\<lambda>x. if x = c then r else [x]) s)"

definition sanitize_input :: "string \<Rightarrow> string" where
  "sanitize_input text =
     (if text = [] then text
      else replace_char CHR ''>'' ''&gt;'' (replace_char CHR ''<'' ''&lt;'' text))"

text \<open>\<^verbatim>\<open>str.strip()\<close> removes leading and trailing whitespace.\<close>

definition py_isspace :: "char \<Rightarrow> bool" where
  "py_isspace c = (let n = (of_char c :: nat) in (9 \<le> n \<and> n \<le> 13) \<or> (28 \<le> n \<and> n \<le> 32))"

definition strip :: "string \<Rightarrow> string" where
  "strip s = rev (dropWhile py_isspace (rev (dropWhile py_isspace s)))"

definition set_default_value :: "val \<Rightarrow> val" where
  "set_default_value v =
     (if v = VNone \<or> (case v of VStr s \<Rightarrow> strip s = [] | _ \<Rightarrow> False) then VStr ''N/A'' else v)"

text \<open>One round of the sanitising loop of \<^verbatim>\<open>admin_add_content\<close>, for the key
  \<open>key\<close>; the loop visits the keys of the dict in order.\<close>

definition sanitize_key :: "string \<Rightarrow> document \<Rightarrow> document" where
  "sanitize_key key data =
     (case map_of data key of
        Some (VStr s) \<Rightarrow> AList.update key (set_default_value (VStr (sanitize_input s))) data
      | _ \<Rightarrow> data)"

text \<open>\<^verbatim>\<open>if k in data: data[k] = data[k] == 'on'\<close> (create).\<close>

definition checkbox_if_present :: "string \<Rightarrow> document \<Rightarrow> document" where
  "checkbox_if_present k data =
     (case map_of data k of
        None \<Rightarrow> data
      | Some v \<Rightarrow> AList.update k (VBool (v = VStr ''on'')) data)"

text \<open>\<^verbatim>\<open>if k in data: data[k] = data[k] == 'on' else: data[k] = False\<close> (edit).\<close>

definition checkbox_or_false :: "string \<Rightarrow> document \<Rightarrow> document" where
  "checkbox_or_false k data = AList.update k (VBool (map_of data k = Some (VStr ''on''))) data"

text \<open>
  One round of the loop of \<^verbatim>\<open>admin_edit_content\<close> over \<^verbatim>\<open>list(data.keys())\<close>.
  The three checkbox blocks are indented under the \<^verbatim>\<open>isinstance(data[key], str)\<close>
  test inside the loop, so they run once for every key whose value is a string when the
  loop reaches it.
\<close>

definition edit_key :: "string \<Rightarrow> document \<Rightarrow> document" where
  "edit_key key data =
     (case map_of data key of
        Some (VStr s) \<Rightarrow>
          checkbox_or_false ''is_project''
            (checkbox_or_false ''active''
              (checkbox_or_false ''certification''
                (AList.update key (set_default_value (VStr (sanitize_input s))) data)))
      | _ \<Rightarrow> data)"

fun split_on :: "char \<Rightarrow> string \<Rightarrow> string list" where
  "split_on c [] = [[]]"
| "split_on c (x # xs) =
     (if x = c then [] # split_on c xs
      else (case split_on c xs of
              [] \<Rightarrow> [[x]]
            | w # ws \<Rightarrow> (x # w) # ws))"

text \<open>The \<^verbatim>\<open>requirements\<close> field, a string of the form when present, becomes the
  list of its non-blank comma-separated parts unless it is the sentinel.\<close>

definition split_requirements :: "document \<Rightarrow> document" where
  "split_requirements data =
     (case map_of data ''requirements'' of
        Some (VStr s) \<Rightarrow>
          if s \<noteq> ''N/A''
          then AList.update ''requirements''
                 (VList (filter (\<lambda>r. r \<noteq> []) (map strip (split_on CHR '','' s)))) data
          else data
      | _ \<Rightarrow> data)"

text \<open>\<^verbatim>\<open>upload_to_cloudinary\<close>: the URL of the uploaded image, or \<^verbatim>\<open>None\<close> when
  the service (or reading its answer) raises.\<close>

definition upload_to_cloudinary :: "env \<Rightarrow> string \<Rightarrow> string option" where
  "upload_to_cloudinary env file =
     (case cloudinary_upload env file of
        Inl e \<Rightarrow> None
      | Inr result \<Rightarrow> map_of result ''secure_url'')"

text \<open>The file-upload block of \<^verbatim>\<open>admin_add_content\<close>: the result of the upload
  is stored whatever it is.\<close>

definition add_image :: "env \<Rightarrow> request \<Rightarrow> document \<Rightarrow> document" where
  "add_image env req data =
     (case image_file req of
        None \<Rightarrow> data
      | Some filename \<Rightarrow>
          if filename \<noteq> []
          then AList.update ''image'' (opt_str (upload_to_cloudinary env filename)) data
          else data)"

text \<open>The file-upload block of \<^verbatim>\<open>admin_edit_content\<close>: the result is stored
  only \<^verbatim>\<open>if image_url\<close>.\<close>

definition edit_image :: "env \<Rightarrow> request \<Rightarrow> document \<Rightarrow> document" where
  "edit_image env req data =
     (case image_file req of
        None \<Rightarrow> data
      | Some filename \<Rightarrow>
          if filename \<noteq> []
          then (case upload_to_cloudinary env filename of
                  None \<Rightarrow> data
                | Some image_url \<Rightarrow>
                    if image_url \<noteq> [] then AList.update ''image'' (VStr image_url) data
                    else data)
          else data)"

text \<open>\<^verbatim>\<open>v[:n]\<close>.\<close>

definition py_slice :: "nat \<Rightarrow> val \<Rightarrow> exn + val" where
  "py_slice n v =
     (case v of
        VStr s \<Rightarrow> Inr (VStr (take n s))
      | VList xs \<Rightarrow> Inr (VList (take n xs))
      | _ \<Rightarrow> Inl TypeError)"

section \<open>Administration of content\<close>

datatype coll_name = Jobs | Workshops | Courses | Hackathons | Roadmaps | Websites | Ads

fun get_collection :: "coll_name \<Rightarrow> db \<Rightarrow> collection" where
  "get_collection Jobs st = jobs_collection st"
| "get_collection Workshops st = workshops_collection st"
| "get_collection Courses st = courses_collection st"
| "get_collection Hackathons st = hackathons_collection st"
| "get_collection Roadmaps st = roadmaps_collection st"
| "get_collection Websites st = websites_collection st"
| "get_collection Ads st = ads_collection st"

fun set_collection :: "coll_name \<Rightarrow> collection \<Rightarrow> db \<Rightarrow> db" where
  "set_collection Jobs c st = st\<lparr>jobs_collection := c\<rparr>"
| "set_collection Workshops c st = st\<lparr>workshops_collection := c\<rparr>"
| "set_collection Courses c st = st\<lparr>courses_collection := c\<rparr>"
| "set_collection Hackathons c st = st\<lparr>hackathons_collection := c\<rparr>"
| "set_collection Roadmaps c st = st\<lparr>roadmaps_collection := c\<rparr>"
| "set_collection Websites c st = st\<lparr>websites_collection := c\<rparr>"
| "set_collection Ads c st = st\<lparr>ads_collection := c\<rparr>"

text \<open>The \<^verbatim>\<open>collection_map\<close> of the admin handlers.\<close>

definition collection_map :: "string \<Rightarrow> coll_name option" where
  "collection_map =
     map_of [(''jobs'', Jobs), (''workshops'', Workshops), (''courses'', Courses),
             (''hackathons'', Hackathons), (''roadmaps'', Roadmaps),
             (''websites'', Websites), (''ads'', Ads)]"

text \<open>\<^verbatim>\<open>@admin_required\<close> lets a request through when the session has a user id and
  the admin flag; the user id is what the handler reads as \<^verbatim>\<open>session['user_id']\<close>.\<close>

definition admin_required :: "env \<Rightarrow> string option" where
  "admin_required env = (if session_is_admin env then session_user_id env else None)"

subsection \<open>Create\<close>

text \<open>The dict \<^verbatim>\<open>data\<close> of \<^verbatim>\<open>admin_add_content\<close> when it reaches
  \<^verbatim>\<open>insert_one\<close>.\<close>

definition add_data :: "env \<Rightarrow> request \<Rightarrow> string \<Rightarrow> document" where
  "add_data env req user =
     (let data = to_dict (form req);
          data = add_image env req data;
          data = fold sanitize_key (map fst data) data;
          data = AList.update ''posted_at'' (VTime (utcnow env)) data;
          data = AList.update ''admin_id'' (VStr user) data;
          data = checkbox_if_present ''certification'' data;
          data = checkbox_if_present ''active'' data
      in split_requirements data)"

text \<open>The dict \<^verbatim>\<open>ad_data\<close> of \<^verbatim>\<open>admin_add_content\<close>. In
  \<^verbatim>\<open>data.get('role') or data.get('description', 'N/A')[:100]\<close> the slice binds
  tighter than \<^verbatim>\<open>or\<close>, and is evaluated only when the role is not truthy.\<close>

definition add_ad_data :: "env \<Rightarrow> string \<Rightarrow> string \<Rightarrow> val \<Rightarrow> document \<Rightarrow> exn + document" where
  "add_ad_data env user content_type inserted_id data =
     (case (if truthy (dict_get data ''role'') then Inr (dict_get data ''role'')
            else py_slice 100 (dict_get_default data ''description'' (VStr ''N/A''))) of
        Inl e \<Rightarrow> Inl e
      | Inr description \<Rightarrow>
          Inr [(''title'',
                  py_or (dict_get data ''company_name'')
                    (py_or (dict_get data ''name'') (dict_get_default data ''title'' (VStr ''N/A'')))),
               (''description'', description),
               (''image'', dict_get_default data ''image'' (VStr '''')),
               (''link'', dict_get_default data ''official_link'' (VStr ''#'')),
               (''content_type'', VStr content_type),
               (''content_reference'', inserted_id),
               (''active'', VBool True),
               (''clicks'', VInt 0),
               (''impressions'', VInt 0),
               (''posted_at'', VTime (utcnow env)),
               (''admin_id'', VStr user)])"

definition admin_add_content :: "env \<Rightarrow> request \<Rightarrow> string \<Rightarrow> db \<Rightarrow> response \<times> db" where
  "admin_add_content env req content_type st =
     (case admin_required env of
        None \<Rightarrow> (Redirect ''login'', st)
      | Some user \<Rightarrow>
     (case collection_map content_type of
        None \<Rightarrow> (JsonError 400 ''Invalid content type'', st)
      | Some c \<Rightarrow>
     (case insert_one (new_object_id env 0) (add_data env req user) (get_collection c st) of
        Inl e \<Rightarrow> (Unhandled e, st)
      | Inr (inserted_id, coll') \<Rightarrow>
          let st1 = set_collection c coll' st in
          if map_of (form req) ''promote_as_ad'' = Some ''on''
          then
            (case add_ad_data env user content_type inserted_id (add_data env req user) of
               Inl e \<Rightarrow> (Unhandled e, st1)
             | Inr ad_data \<Rightarrow>
                 (case insert_one (new_object_id env 1) ad_data (ads_collection st1) of
                    Inl e \<Rightarrow> (Unhandled e, st1)
                  | Inr (_, ads') \<Rightarrow> (Redirect ''admin_content'', st1\<lparr>ads_collection := ads'\<rparr>)))
          else (Redirect ''admin_content'', st1))))"

subsection \<open>Edit\<close>

text \<open>The dict \<^verbatim>\<open>data\<close> of \<^verbatim>\<open>admin_edit_content\<close> when it reaches
  \<^verbatim>\<open>update_one\<close>.\<close>

definition edit_data :: "env \<Rightarrow> request \<Rightarrow> document" where
  "edit_data env req =
     (let data = to_dict (form req);
          data = edit_image env req data;
          data = AList.delete ''promote_as_ad'' data;
          data = fold edit_key (map fst data) data;
          data = split_requirements data
      in AList.update ''updated_at'' (VTime (utcnow env)) data)"

definition edit_ad_data :: "env \<Rightarrow> string \<Rightarrow> string \<Rightarrow> object_id \<Rightarrow> document \<Rightarrow> exn + document" where
  "edit_ad_data env user content_type oid data =
     (case py_slice 150
             (py_or (dict_get data ''role'') (dict_get_default data ''description'' (VStr ''''))) of
        Inl e \<Rightarrow> Inl e
      | Inr description \<Rightarrow>
          Inr [(''title'',
                  py_or (dict_get data ''company_name'')
                    (py_or (dict_get data ''name'') (VStr ''Opportunity''))),
               (''description'', description),
               (''image'', dict_get_default data ''image'' (VStr '''')),
               (''link'', dict_get_default data ''official_link'' (VStr ''#'')),
               (''content_type'', VStr content_type),
               (''content_reference'', VOid oid),
               (''active'', VBool True),
               (''updated_at'', VTime (utcnow env)),
               (''admin_id'', VStr user)])"

text \<open>The ad part of the edit, for the content types that can be promoted: update the
  ad found by its content reference, or insert a new one; without the flag, delete the
  ads that refer to the content.\<close>

definition edit_promotion ::
  "env \<Rightarrow> string \<Rightarrow> string \<Rightarrow> object_id \<Rightarrow> bool \<Rightarrow> document \<Rightarrow> collection \<Rightarrow> exn + collection"
where
  "edit_promotion env user content_type oid promote_as_ad data ads =
     (if promote_as_ad
      then
        (case edit_ad_data env user content_type oid data of
           Inl e \<Rightarrow> Inl e
         | Inr ad_data \<Rightarrow>
             (case map_option (include_fields [])
                     (find_one (field_is ''content_reference'' (VOid oid)) ads) of
                Some ((k, existing_id) # _) \<Rightarrow>
                  (case update_one (field_is ''_id'' existing_id) (set_op ad_data) ads of
                     Inl e \<Rightarrow> Inl e
                   | Inr (_, ads') \<Rightarrow> Inr ads')
              | _ \<Rightarrow>
                  (case insert_one (new_object_id env 0)
                          (ad_data @ [(''clicks'', VInt 0), (''impressions'', VInt 0),
                                      (''posted_at'', VTime (utcnow env))]) ads of
                     Inl e \<Rightarrow> Inl e
                   | Inr (_, ads') \<Rightarrow> Inr ads')))
      else Inr (delete_many (field_is ''content_reference'' (VOid oid)) ads))"

text \<open>\<^verbatim>\<open>admin_edit_content\<close> for a POST request (a GET only reads the item for the
  form). \<^verbatim>\<open>ObjectId(id)\<close> raises on a malformed id, and nothing catches it.\<close>

definition admin_edit_content :: "env \<Rightarrow> request \<Rightarrow> string \<Rightarrow> string \<Rightarrow> db \<Rightarrow> response \<times> db" where
  "admin_edit_content env req content_type id_str st =
     (case admin_required env of
        None \<Rightarrow> (Redirect ''login'', st)
      | Some user \<Rightarrow>
     (case collection_map content_type of
        None \<Rightarrow> (Redirect ''admin_dashboard'', st)
      | Some c \<Rightarrow>
     (case ObjectId id_str of
        Inl e \<Rightarrow> (Unhandled e, st)
      | Inr oid \<Rightarrow>
     (case update_one (field_is ''_id'' (VOid oid)) (set_op (edit_data env req))
             (get_collection c st) of
        Inl e \<Rightarrow> (Unhandled e, st)
      | Inr (_, coll') \<Rightarrow>
          let st1 = set_collection c coll' st in
          if content_type \<in> set [''jobs'', ''workshops'', ''courses'', ''hackathons'']
          then
            (case edit_promotion env user content_type oid
                    (map_of (form req) ''promote_as_ad'' = Some ''on'')
                    (edit_data env req) (ads_collection st1) of
               Inl e \<Rightarrow> (Unhandled e, st1)
             | Inr ads' \<Rightarrow> (Redirect ''admin_content'', st1\<lparr>ads_collection := ads'\<rparr>))
          else (Redirect ''admin_content'', st1)))))"

subsection \<open>Delete\<close>

definition admin_delete_content :: "env \<Rightarrow> string \<Rightarrow> string \<Rightarrow> db \<Rightarrow> response \<times> db" where
  "admin_delete_content env content_type id_str st =
     (case admin_required env of
        None \<Rightarrow> (Redirect ''login'', st)
      | Some user \<Rightarrow>
     (case collection_map content_type of
        None \<Rightarrow> (JsonError 400 ''Invalid content type'', st)
      | Some c \<Rightarrow>
     (case ObjectId id_str of
        Inl e \<Rightarrow> (Unhandled e, st)
      | Inr oid \<Rightarrow>
          let st1 = set_collection c
                      (delete_one (field_is ''_id'' (VOid oid)) (get_collection c st)) st
          in (Redirect ''admin_content'',
              st1\<lparr>ads_collection :=
                    delete_many (field_is ''content_reference'' (VOid oid))
                      (ads_collection st1)\<rparr>))))"

section \<open>Relative time\<close>

text \<open>Decimal rendering of numbers, as an f-string does.\<close>

fun str_nat :: "nat \<Rightarrow> string" where
  "str_nat n =
     (if n < 10 then [''0123456789'' ! n]
      else str_nat (n div 10) @ [''0123456789'' ! (n mod 10)])"

declare str_nat.simps [simp del]

definition str_int :: "int \<Rightarrow> string" where
  "str_int i = (if i < 0 then CHR ''-'' # str_nat (nat (- i)) else str_nat (nat i))"

text \<open>\<^verbatim>\<open>int(x)\<close> truncates towards zero.\<close>

definition py_int :: "real \<Rightarrow> int" where
  "py_int x = (if x < 0 then \<lceil>x\<rceil> else \<lfloor>x\<rfloor>)"

text \<open>
  The body of \<^verbatim>\<open>time_ago\<close> from \<^verbatim>\<open>seconds = diff.total_seconds()\<close> on.
  Seconds are real numbers: the rounding of floating-point division is left out.
\<close>

definition time_ago_seconds :: "real \<Rightarrow> string" where
  "time_ago_seconds seconds =
     (if seconds < 60 then ''Just now''
      else if seconds < 3600 then
        (let minutes = py_int (seconds / 60)
         in str_int minutes @ '' minute'' @ (if minutes > 1 then ''s'' else '''') @ '' ago'')
      else if seconds < 86400 then
        (let hours = py_int (seconds / 3600)
         in str_int hours @ '' hour'' @ (if hours > 1 then ''s'' else '''') @ '' ago'')
      else if seconds < 604800 then
        (let days = py_int (seconds / 86400)
         in str_int days @ '' day'' @ (if days > 1 then ''s'' else '''') @ '' ago'')
      else if seconds < 2592000 then
        (let weeks = py_int (seconds / 604800)
         in str_int weeks @ '' week'' @ (if weeks > 1 then ''s'' else '''') @ '' ago'')
      else
        (let months = py_int (seconds / 2592000)
         in str_int months @ '' month'' @ (if months > 1 then ''s'' else '''') @ '' ago''))"

text \<open>Datetimes are counted in microseconds; \<^verbatim>\<open>timedelta.total_seconds()\<close>.\<close>

definition total_seconds :: "int \<Rightarrow> real" where
  "total_seconds microseconds = real_of_int microseconds / 1000000"

text \<open>
  The function under the decorator (\<^verbatim>\<open>time_ago.__wrapped__\<close>), for the string
  of a datetime: the elapsed time since \<^verbatim>\<open>utcnow()\<close>, read at the call.
\<close>

definition time_ago_wrapped :: "env \<Rightarrow> int \<Rightarrow> string" where
  "time_ago_wrapped env posted_at = time_ago_seconds (total_seconds (utcnow env - posted_at))"

text \<open>
  \<^verbatim>\<open>@lru_cache(maxsize=128)\<close>: the results of the process so far, keyed by the
  argument, the most recently used first. The argument is \<^verbatim>\<open>str\<close> of a datetime,
  which is one-to-one on the datetimes of the database, so the key is kept as the
  datetime. A call whose key is in the cache returns the stored result without running
  the function and makes the entry the most recent; any other call runs the function,
  stores the result and, beyond 128 entries, drops the least recently used one. The
  current time is no part of the key.
\<close>

type_synonym lru_cache = "(int \<times> string) list"

definition time_ago :: "env \<Rightarrow> int \<Rightarrow> lru_cache \<Rightarrow> string \<times> lru_cache" where
  "time_ago env posted_at cache =
     (case map_of cache posted_at of
        Some result \<Rightarrow> (result, (posted_at, result) # AList.delete posted_at cache)
      | None \<Rightarrow>
          (let result = time_ago_wrapped env posted_at
           in (result, take 128 ((posted_at, result) # cache))))"

text \<open>
  The buckets as the specification names them: the unit of a duration (0 for
  ``just now'', then minutes, hours, days, weeks, months) with its length in seconds,
  the truncated count of units, and the text for a unit and a count.
\<close>

definition spec_unit :: "real \<Rightarrow> nat" where
  "spec_unit s =
     (if s < 60 then 0 else if s < 3600 then 1 else if s < 86400 then 2
      else if s < 604800 then 3 else if s < 2592000 then 4 else 5)"

definition spec_unit_seconds :: "nat \<Rightarrow> real" where
  "spec_unit_seconds u = [1, 60, 3600, 86400, 604800, 2592000] ! u"

definition spec_unit_name :: "nat \<Rightarrow> string" where
  "spec_unit_name u = [''second'', ''minute'', ''hour'', ''day'', ''week'', ''month''] ! u"

definition spec_count :: "real \<Rightarrow> int" where
  "spec_count s = (if s < 60 then 0 else \<lfloor>s / spec_unit_seconds (spec_unit s)\<rfloor>)"

definition spec_text :: "nat \<Rightarrow> int \<Rightarrow> string" where
  "spec_text u n =
     (if u = 0 then ''Just now''
      else str_int n @ '' '' @ spec_unit_name u @ (if n = 1 then '''' else ''s'') @ '' ago'')"

section \<open>Public reads\<close>

definition ITEMS_PER_PAGE :: int where
  "ITEMS_PER_PAGE = 30"

record pagination =
  page :: int
  total_pages :: int
  has_prev :: bool
  has_next :: bool
  prev_page :: "int option"
  next_page :: "int option"

definition get_pagination_data :: "int \<Rightarrow> int \<Rightarrow> pagination" where
  "get_pagination_data pg total_items =
     (let tp = (total_items + ITEMS_PER_PAGE - 1) div ITEMS_PER_PAGE;
          hp = (pg > 1);
          hn = (pg < tp)
      in \<lparr>page = pg, total_pages = tp, has_prev = hp, has_next = hn,
          prev_page = (if hp then Some (pg - 1) else None),
          next_page = (if hn then Some (pg + 1) else None)\<rparr>)"

text \<open>
  \<^verbatim>\<open>.sort('posted_at', DESCENDING)\<close>. The key of a document is its posting
  time; a document whose \<^verbatim>\<open>posted_at\<close> is absent or no datetime sorts below every
  datetime, as the values this program stores do in BSON's order. The order among
  documents of equal key, which the server leaves open, is fixed here.
\<close>

definition posted_at_key :: "document \<Rightarrow> int option" where
  "posted_at_key d = (case map_of d ''posted_at'' of Some (VTime t) \<Rightarrow> Some t | _ \<Rightarrow> None)"

definition sort_posted_desc :: "collection \<Rightarrow> collection" where
  "sort_posted_desc docs = rev (sort_key posted_at_key docs)"

text \<open>\<^verbatim>\<open>find(q, {'admin_id': 0}).sort('posted_at', DESCENDING).skip(n).limit(30)\<close>;
  a negative skip raises \<^verbatim>\<open>ValueError\<close>.\<close>

definition find_page :: "(document \<Rightarrow> bool) \<Rightarrow> int \<Rightarrow> collection \<Rightarrow> exn + collection" where
  "find_page q skip coll =
     (if skip < 0 then Inl ValueError
      else Inr (map (exclude_fields [''admin_id''])
                  (take (nat ITEMS_PER_PAGE) (drop (nat skip) (sort_posted_desc (filter q coll))))))"

text \<open>The \<^verbatim>\<open>collection_map\<close> of the public listings and of the filter.\<close>

definition public_collection_map :: "string \<Rightarrow> coll_name option" where
  "public_collection_map =
     map_of [(''jobs'', Jobs), (''workshops'', Workshops), (''courses'', Courses),
             (''hackathons'', Hackathons)]"

text \<open>\<^verbatim>\<open>get_cached_content\<close>. The memoised value is dropped by every write of the
  admin handlers (\<^verbatim>\<open>cache.clear()\<close>), so the function is modelled by its body;
  \<^verbatim>\<open>estimated_document_count\<close> is the size of the collection.\<close>

definition get_cached_content :: "string \<Rightarrow> int \<Rightarrow> db \<Rightarrow> exn + (collection \<times> int)" where
  "get_cached_content content_type pg st =
     (case public_collection_map content_type of
        None \<Rightarrow> Inr ([], 0)
      | Some c \<Rightarrow>
          (case find_page (\<lambda>d. True) ((pg - 1) * ITEMS_PER_PAGE) (get_collection c st) of
             Inl e \<Rightarrow> Inl e
           | Inr items \<Rightarrow> Inr (items, int (length (get_collection c st)))))"

text \<open>What a read hands to the template or to \<^verbatim>\<open>jsonify\<close>.\<close>

datatype 'a outcome = Rendered 'a | Redirected string | JsonFailure nat string | Raised exn

text \<open>\<^verbatim>\<open>item['time_ago'] = time_ago(str(item['posted_at']))\<close>; a value that is not
  a datetime is taken not to parse as one. A call that raises stores nothing in the
  cache of \<^verbatim>\<open>time_ago\<close>.\<close>

definition with_time_ago :: "env \<Rightarrow> document \<Rightarrow> lru_cache \<Rightarrow> (exn + document) \<times> lru_cache" where
  "with_time_ago env item cache =
     (case map_of item ''posted_at'' of
        None \<Rightarrow> (Inl KeyError, cache)
      | Some (VTime t) \<Rightarrow>
          (case time_ago env t cache of
             (result, cache') \<Rightarrow> (Inr (AList.update ''time_ago'' (VStr result) item), cache'))
      | Some _ \<Rightarrow> (Inl ValueError, cache))"

fun each_with_time_ago :: "env \<Rightarrow> collection \<Rightarrow> lru_cache \<Rightarrow> (exn + collection) \<times> lru_cache" where
  "each_with_time_ago env [] cache = (Inr [], cache)"
| "each_with_time_ago env (item # items) cache =
     (case with_time_ago env item cache of
        (Inl e, cache1) \<Rightarrow> (Inl e, cache1)
      | (Inr item', cache1) \<Rightarrow>
          (case each_with_time_ago env items cache1 of
             (Inl e, cache2) \<Rightarrow> (Inl e, cache2)
           | (Inr items', cache2) \<Rightarrow> (Inr (item' # items'), cache2)))"

text \<open>The pages \<^verbatim>\<open>/jobs\<close>, \<^verbatim>\<open>/workshops\<close>, \<^verbatim>\<open>/courses\<close> and
  \<^verbatim>\<open>/hackathons\<close> share one body. A page returns what it renders and the cache of
  \<^verbatim>\<open>time_ago\<close> as it leaves it.\<close>

definition content_listing ::
  "env \<Rightarrow> string \<Rightarrow> int \<Rightarrow> db \<Rightarrow> lru_cache \<Rightarrow> (collection \<times> pagination) outcome \<times> lru_cache"
where
  "content_listing env content_type pg st cache =
     (case get_cached_content content_type pg st of
        Inl e \<Rightarrow> (Raised e, cache)
      | Inr (items, total_count) \<Rightarrow>
          (case each_with_time_ago env items cache of
             (Inl e, cache') \<Rightarrow> (Raised e, cache')
           | (Inr items', cache') \<Rightarrow>
               (Rendered (items', get_pagination_data pg total_count), cache')))"

definition jobs :: "env \<Rightarrow> int \<Rightarrow> db \<Rightarrow> lru_cache \<Rightarrow> (collection \<times> pagination) outcome \<times> lru_cache" where
  "jobs env pg st cache = content_listing env ''jobs'' pg st cache"

definition workshops :: "env \<Rightarrow> int \<Rightarrow> db \<Rightarrow> lru_cache \<Rightarrow> (collection \<times> pagination) outcome \<times> lru_cache" where
  "workshops env pg st cache = content_listing env ''workshops'' pg st cache"

definition courses :: "env \<Rightarrow> int \<Rightarrow> db \<Rightarrow> lru_cache \<Rightarrow> (collection \<times> pagination) outcome \<times> lru_cache" where
  "courses env pg st cache = content_listing env ''courses'' pg st cache"

definition hackathons :: "env \<Rightarrow> int \<Rightarrow> db \<Rightarrow> lru_cache \<Rightarrow> (collection \<times> pagination) outcome \<times> lru_cache" where
  "hackathons env pg st cache = content_listing env ''hackathons'' pg st cache"

definition roadmaps :: "env \<Rightarrow> db \<Rightarrow> collection outcome" where
  "roadmaps env st =
     (if session_user_id env = None then Redirected ''login''
      else Rendered (map (exclude_fields [''admin_id'']) (roadmaps_collection st)))"

definition websites :: "db \<Rightarrow> collection outcome" where
  "websites st = Rendered (map (exclude_fields [''admin_id'']) (websites_collection st))"

definition our_projects :: "db \<Rightarrow> collection outcome" where
  "our_projects st =
     Rendered (map (exclude_fields [''admin_id''])
                 (filter (field_is ''is_project'' (VBool True)) (websites_collection st)))"

subsection \<open>Detail page\<close>

definition detail_collection_map :: "string \<Rightarrow> coll_name option" where
  "detail_collection_map =
     map_of [(''job'', Jobs), (''workshop'', Workshops), (''course'', Courses),
             (''hackathon'', Hackathons)]"

definition related_content :: "string \<Rightarrow> object_id \<Rightarrow> document \<Rightarrow> collection \<Rightarrow> collection" where
  "related_content content_type oid item coll =
     (if content_type = ''job''
      then take 3 (map (include_fields [''company_name'', ''role'', ''location'', ''posted_at'', ''image''])
             (filter (\<lambda>d. field_is ''job_type'' (dict_get item ''job_type'') d
                          \<and> \<not> field_is ''_id'' (VOid oid) d) coll))
      else take 3 (map (include_fields [''name'', ''organizer'', ''posted_at'', ''image''])
             (filter (\<lambda>d. \<not> field_is ''_id'' (VOid oid) d) coll)))"

definition detail_page ::
  "env \<Rightarrow> string \<Rightarrow> string \<Rightarrow> db \<Rightarrow> lru_cache \<Rightarrow> (document \<times> collection) outcome \<times> lru_cache"
where
  "detail_page env content_type id_str st cache =
     (if session_user_id env = None then (Redirected ''login'', cache)
      else case detail_collection_map content_type of
        None \<Rightarrow> (Redirected ''index'', cache)
      | Some c \<Rightarrow>
     (case ObjectId id_str of
        Inl e \<Rightarrow> (Raised e, cache)
      | Inr oid \<Rightarrow>
     (case map_option (exclude_fields [''admin_id''])
             (find_one (field_is ''_id'' (VOid oid)) (get_collection c st)) of
        None \<Rightarrow> (Redirected ''index'', cache)
      | Some item \<Rightarrow>
          if item = [] then (Redirected ''index'', cache)
          else
            (case with_time_ago env item cache of
               (Inl e, cache') \<Rightarrow> (Raised e, cache')
             | (Inr item', cache') \<Rightarrow>
                 (Rendered (item', related_content content_type oid item' (get_collection c st)),
                  cache')))))"

subsection \<open>Filter and search\<close>

text \<open>\<^verbatim>\<open>str(x)\<close> of the value of an \<^verbatim>\<open>_id\<close> field: ObjectIds print as 24
  lower-case hexadecimal digits. The ids of this database are ObjectIds or strings.\<close>

definition str_of_id :: "val \<Rightarrow> string" where
  "str_of_id v =
     (case v of
        VOid i \<Rightarrow> map (\<lambda>n. ''0123456789abcdef'' ! (n mod 16)) i
      | VStr s \<Rightarrow> s
      | _ \<Rightarrow> [])"

text \<open>\<^verbatim>\<open>item['_id'] = str(item['_id'])\<close>.\<close>

definition id_to_str :: "document \<Rightarrow> exn + document" where
  "id_to_str item =
     (case map_of item ''_id'' of
        None \<Rightarrow> Inl KeyError
      | Some i \<Rightarrow> Inr (AList.update ''_id'' (VStr (str_of_id i)) item))"

text \<open>\<^verbatim>\<open>{k: {'$regex': pattern, '$options': 'i'}}\<close> with the matcher \<open>rx\<close> of the
  pattern.\<close>

definition regex_field :: "(string \<Rightarrow> bool) \<Rightarrow> string \<Rightarrow> document \<Rightarrow> bool" where
  "regex_field rx k d =
     (case map_of d k of
        Some (VStr s) \<Rightarrow> rx s
      | Some (VList xs) \<Rightarrow> list_ex rx xs
      | _ \<Rightarrow> False)"

text \<open>\<^verbatim>\<open>{'posted_at': {'$gte': bound}}\<close> for a datetime bound.\<close>

definition posted_since :: "int \<Rightarrow> document \<Rightarrow> bool" where
  "posted_since bound d = (case map_of d ''posted_at'' of Some (VTime t) \<Rightarrow> bound \<le> t | _ \<Rightarrow> False)"

text \<open>\<^verbatim>\<open>request.args.get(k)\<close>, with the empty string for an absent argument: the
  code only tests it for truth before using it.\<close>

definition arg :: "(string \<times> string) list \<Rightarrow> string \<Rightarrow> string" where
  "arg args k = (case map_of args k of None \<Rightarrow> [] | Some v \<Rightarrow> v)"

definition date_bound :: "env \<Rightarrow> string \<Rightarrow> int option" where
  "date_bound env date_filter =
     (if date_filter = ''24h'' then Some (utcnow env - 24 * 3600 * 1000000)
      else if date_filter = ''week'' then Some (utcnow env - 7 * 86400 * 1000000)
      else if date_filter = ''month'' then Some (utcnow env - 30 * 86400 * 1000000)
      else None)"

text \<open>The conjunctive query of \<^verbatim>\<open>filter_content\<close>; \<open>None\<close> when the server
  rejects the location pattern.\<close>

definition filter_query :: "env \<Rightarrow> (string \<times> string) list \<Rightarrow> (document \<Rightarrow> bool) option" where
  "filter_query env args =
     (case (if arg args ''location'' \<noteq> [] then regex_search env (arg args ''location'')
            else Some (\<lambda>s. True)) of
        None \<Rightarrow> None
      | Some rx \<Rightarrow>
          Some (\<lambda>d.
            (arg args ''location'' = [] \<or> regex_field rx ''location'' d)
          \<and> (arg args ''price'' = [] \<or> field_is ''price'' (VStr (arg args ''price'')) d)
          \<and> (case (if arg args ''date'' \<noteq> [] then date_bound env (arg args ''date'') else None) of
                None \<Rightarrow> True
              | Some bound \<Rightarrow> posted_since bound d)
          \<and> (arg args ''job_type'' = [] \<or> field_is ''job_type'' (VStr (arg args ''job_type'')) d)
          \<and> (arg args ''experience'' = []
               \<or> field_is ''required_experience'' (VStr (arg args ''experience'')) d)))"

fun each_filter_result :: "env \<Rightarrow> collection \<Rightarrow> lru_cache \<Rightarrow> (exn + collection) \<times> lru_cache" where
  "each_filter_result env [] cache = (Inr [], cache)"
| "each_filter_result env (item # items) cache =
     (case id_to_str item of
        Inl e \<Rightarrow> (Inl e, cache)
      | Inr item1 \<Rightarrow>
          (case with_time_ago env item1 cache of
             (Inl e, cache1) \<Rightarrow> (Inl e, cache1)
           | (Inr item2, cache1) \<Rightarrow>
               (case each_filter_result env items cache1 of
                  (Inl e, cache2) \<Rightarrow> (Inl e, cache2)
                | (Inr items', cache2) \<Rightarrow> (Inr (item2 # items'), cache2))))"

definition filter_content ::
  "env \<Rightarrow> (string \<times> string) list \<Rightarrow> int \<Rightarrow> string \<Rightarrow> db \<Rightarrow> lru_cache
     \<Rightarrow> collection outcome \<times> lru_cache"
where
  "filter_content env args pg content_type st cache =
     (case public_collection_map content_type of
        None \<Rightarrow> (JsonFailure 400 ''Invalid content type'', cache)
      | Some c \<Rightarrow>
     (case filter_query env args of
        None \<Rightarrow> (Raised OperationFailure, cache)
      | Some q \<Rightarrow>
     (case find_page q ((pg - 1) * ITEMS_PER_PAGE) (get_collection c st) of
        Inl e \<Rightarrow> (Raised e, cache)
      | Inr results \<Rightarrow>
          (case each_filter_result env results cache of
             (Inl e, cache') \<Rightarrow> (Raised e, cache')
           | (Inr results', cache') \<Rightarrow> (Rendered results', cache')))))"

text \<open>One of the four blocks of \<^verbatim>\<open>search\<close>: the text-index search and, when it
  raises, the search by regular expression over the given fields; every hit gets its
  id as a string and its \<^verbatim>\<open>type\<close>.\<close>

fun each_search_result :: "string \<Rightarrow> collection \<Rightarrow> exn + collection" where
  "each_search_result ty [] = Inr []"
| "each_search_result ty (item # items) =
     (case id_to_str item of
        Inl e \<Rightarrow> Inl e
      | Inr item1 \<Rightarrow>
          (case each_search_result ty items of
             Inl e \<Rightarrow> Inl e
           | Inr items' \<Rightarrow> Inr (AList.update ''type'' (VStr ty) item1 # items')))"

definition search_fallback :: "env \<Rightarrow> string \<Rightarrow> string list \<Rightarrow> string \<Rightarrow> collection \<Rightarrow> exn + collection" where
  "search_fallback env query field_names ty coll =
     (case regex_search env query of
        None \<Rightarrow> Inl OperationFailure
      | Some rx \<Rightarrow>
          each_search_result ty
            (map (exclude_fields [''admin_id''])
               (take 5 (filter (\<lambda>d. list_ex (\<lambda>k. regex_field rx k d) field_names) coll))))"

definition search_collection :: "env \<Rightarrow> string \<Rightarrow> string list \<Rightarrow> string \<Rightarrow> collection \<Rightarrow> exn + collection" where
  "search_collection env query field_names ty coll =
     (case text_search env query coll of
        Inl e \<Rightarrow> search_fallback env query field_names ty coll
      | Inr hits \<Rightarrow>
          (case each_search_result ty
                  (map (\<lambda>h. AList.update ''score'' (fst h) (exclude_fields [''admin_id''] (snd h)))
                     (take 5 hits)) of
             Inl e \<Rightarrow> search_fallback env query field_names ty coll
           | Inr found \<Rightarrow> Inr found))"

definition search :: "env \<Rightarrow> (string \<times> string) list \<Rightarrow> db \<Rightarrow> collection outcome" where
  "search env args st =
     (let query = strip (arg args ''q'') in
      if query = [] then Rendered []
      else
     (case search_collection env query [''company_name'', ''role'', ''job_type''] ''job''
             (jobs_collection st) of
        Inl e \<Rightarrow> Raised e
      | Inr r1 \<Rightarrow>
     (case search_collection env query [''name'', ''organizer''] ''workshop''
             (workshops_collection st) of
        Inl e \<Rightarrow> Raised e
      | Inr r2 \<Rightarrow>
     (case search_collection env query [''name'', ''instructor''] ''course''
             (courses_collection st) of
        Inl e \<Rightarrow> Raised e
      | Inr r3 \<Rightarrow>
     (case search_collection env query [''name'', ''organizer''] ''hackathon''
             (hackathons_collection st) of
        Inl e \<Rightarrow> Raised e
      | Inr r4 \<Rightarrow> Rendered (r1 @ r2 @ r3 @ r4))))))"

subsection \<open>Ad rotation\<close>

text \<open>The loop of \<^verbatim>\<open>get_ads\<close> over the sampled and projected ads.\<close>

definition public_ad :: "document \<Rightarrow> exn + document" where
  "public_ad ad =
     (case id_to_str ad of
        Inl e \<Rightarrow> Inl e
      | Inr ad1 \<Rightarrow>
          let ad2 = (case map_of ad1 ''content_reference'' of
                       None \<Rightarrow> ad1
                     | Some r \<Rightarrow> AList.update ''content_reference'' (VStr (str_of_id r)) ad1);
              ad3 = AList.update ''title'' (dict_get_default ad2 ''title'' (VStr ''Opportunity'')) ad2;
              ad4 = AList.update ''description'' (dict_get_default ad3 ''description'' (VStr '''')) ad3;
              ad5 = AList.update ''image'' (dict_get_default ad4 ''image'' (VStr '''')) ad4
          in Inr (AList.update ''link'' (dict_get_default ad5 ''link'' (VStr ''#'')) ad5))"

fun each_public_ad :: "collection \<Rightarrow> exn + collection" where
  "each_public_ad [] = Inr []"
| "each_public_ad (ad # ads) =
     (case public_ad ad of
        Inl e \<Rightarrow> Inl e
      | Inr ad' \<Rightarrow>
          (case each_public_ad ads of
             Inl e \<Rightarrow> Inl e
           | Inr ads' \<Rightarrow> Inr (ad' # ads')))"

definition get_ads :: "env \<Rightarrow> db \<Rightarrow> collection" where
  "get_ads env st =
     (case each_public_ad
             (map (include_fields [''title'', ''description'', ''image'', ''link'', ''clicks''])
                (sample env 5 (filter (field_is ''active'' (VBool True)) (ads_collection st)))) of
        Inl e \<Rightarrow> []
      | Inr ads \<Rightarrow> ads)"

section \<open>Example data\<close>

text \<open>A request environment and a small database on which the theorems below are
  instantiated: an admin session, an image service that is down, one job, one partner
  website, and one ad that promotes the job.\<close>

definition example_env :: env where
  "example_env =
     \<lparr>utcnow = 1700000000000000,
      session_user_id = Some ''admin'',
      session_is_admin = True,
      remote_addr = Some ''203.0.113.7'',
      new_object_id = (\<lambda>k. replicate 24 k),
      cloudinary_upload = (\<lambda>f. Inl UploadError),
      regex_search = (\<lambda>p. Some (\<lambda>s. s = p)),
      text_search = (\<lambda>q c. Inl OperationFailure),
      sample = (\<lambda>n c. take n c)\<rparr>"

definition example_job :: document where
  "example_job =
     [(''_id'', VOid (replicate 24 7)), (''company_name'', VStr ''Acme''),
      (''role'', VStr ''Intern''), (''posted_at'', VTime 1699999000000000),
      (''admin_id'', VStr ''admin'')]"

definition example_website :: document where
  "example_website =
     [(''_id'', VOid (replicate 24 8)), (''name'', VStr ''Docs''),
      (''posted_at'', VTime 1699990000000000), (''admin_id'', VStr ''admin'')]"

definition example_ad :: document where
  "example_ad =
     [(''_id'', VOid (replicate 24 9)), (''title'', VStr ''Acme''),
      (''content_type'', VStr ''jobs''), (''content_reference'', VOid (replicate 24 7)),
      (''active'', VBool True), (''clicks'', VInt 5), (''impressions'', VInt 12),
      (''admin_id'', VStr ''admin'')]"

definition example_db :: db where
  "example_db =
     \<lparr>jobs_collection = [example_job],
      workshops_collection = [],
      courses_collection = [],
      hackathons_collection = [],
      roadmaps_collection = [],
      websites_collection = [example_website],
      ads_collection = [example_ad],
      ad_clicks_collection = []\<rparr>"

definition example_form :: "(string \<times> string) list" where
  "example_form =
     [(''company_name'', ''Initech''), (''role'', ''Engineer''),
      (''description'', ''Build <things>''),
      (''official_link'', ''https://example.org/apply''),
      (''promote_as_ad'', ''on'')]"

section \<open>Auxiliary notions of the proofs\<close>

text \<open>The field \<open>k\<close> of a dict is absent or a string.\<close>

definition text_field :: "string \<Rightarrow> document \<Rightarrow> bool" where
  "text_field k d =
     (case map_of d k of None \<Rightarrow> True | Some (VStr s) \<Rightarrow> True | Some _ \<Rightarrow> False)"

text \<open>No document of a list has the field \<^verbatim>\<open>admin_id\<close>.\<close>

definition no_admin_id :: "collection \<Rightarrow> bool" where
  "no_admin_id docs = list_all (\<lambda>d. map_of d ''admin_id'' = None) docs"

text \<open>The three checkbox fields of a dict are present and satisfy \<open>P\<close>; the field
  \<open>k\<close> of a dict is a string.\<close>

definition checkboxes :: "(val \<Rightarrow> bool) \<Rightarrow> document \<Rightarrow> bool" where
  "checkboxes P d =
     ((case map_of d ''certification'' of Some v \<Rightarrow> P v | None \<Rightarrow> False)
    \<and> (case map_of d ''active'' of Some v \<Rightarrow> P v | None \<Rightarrow> False)
    \<and> (case map_of d ''is_project'' of Some v \<Rightarrow> P v | None \<Rightarrow> False))"

definition string_field :: "string \<Rightarrow> document \<Rightarrow> bool" where
  "string_field k d = (case map_of d k of Some (VStr s) \<Rightarrow> True | _ \<Rightarrow> False)"

section \<open>Verification\<close>

subsection \<open>Driver operations\<close>

lemma field_is_oid [simp]: "field_is k (VOid i) d \<longleftrightarrow> map_of d k = Some (VOid i)"
  by (auto simp: field_is_def split: option.splits val.splits)


lemma update_one_first_match:
  "\<not> list_ex q pre \<Longrightarrow> q d \<Longrightarrow>
     update_one q u (pre @ d # post) =
       (case u d of Inl e \<Rightarrow> Inl e | Inr d' \<Rightarrow> Inr (1, pre @ d' # post))"
  by (induction pre) (auto split: sum.splits)


lemma ObjectId_valid_iff: "ObjectId_is_valid s \<longleftrightarrow> (\<exists>oid. ObjectId s = Inr oid)"
  by (auto simp: ObjectId_is_valid_def ObjectId_def split: sum.splits option.splits if_splits)

lemma ObjectId_example:
  "ObjectId ''777777777777777777777777'' = Inr (replicate 24 7)"
  "ObjectId ''999999999999999999999999'' = Inr (replicate 24 9)"
  "ObjectId ''aaaaaaaaaaaaaaaaaaaaaaaa'' = Inr (replicate 24 10)"
  "ObjectId ''888888888888888888888888'' = Inr (replicate 24 8)"
  by code_simp+

lemma get_set_collection [simp]: "get_collection c (set_collection c coll st) = coll"
  by (cases c) simp_all

lemma ads_set_collection:
  "ads_collection (set_collection c coll st) = (if c = Ads then coll else ads_collection st)"
  by (cases c) simp_all

lemma get_collection_ads_update:
  "get_collection c (st\<lparr>ads_collection := a\<rparr>) = (if c = Ads then a else get_collection c st)"
  by (cases c) simp_all

lemma admin_example [simp]: "admin_required example_env = Some ''admin''"
  by (simp add: admin_required_def example_env_def)

lemma collection_map_simps [simp]:
  "collection_map ''jobs'' = Some Jobs"
  "collection_map ''workshops'' = Some Workshops"
  "collection_map ''courses'' = Some Courses"
  "collection_map ''hackathons'' = Some Hackathons"
  "collection_map ''roadmaps'' = Some Roadmaps"
  "collection_map ''websites'' = Some Websites"
  "collection_map ''ads'' = Some Ads"
  by (simp_all add: collection_map_def)

subsection \<open>Ad clicks\<close>

text \<open>A click on an ad whose \<^verbatim>\<open>clicks\<close> field holds no number: the
  increment is refused, the handler answers 500 and nothing is written.\<close>

lemma ad_click_counter_not_a_number:
  assumes "ObjectId ad_id = Inr oid"
    and "ads_collection st = before @ ad # after"
    and "\<not> list_ex (field_is ''_id'' (VOid oid)) before"
    and "field_is ''_id'' (VOid oid) ad"
    and "click_counter ad = None"
  shows "ad_click env ad_id st = (JsonError 500 ''Server error'', st)"
proof -
  have "ObjectId_is_valid ad_id"
    using assms(1) by (auto simp: ObjectId_valid_iff)
  moreover have "inc_op ''clicks'' 1 ad = Inl WriteError"
    using assms(5) by (auto simp: click_counter_def inc_op_def split: option.splits val.splits)
  ultimately show ?thesis
    using assms(1-4) by (simp add: ad_click_def update_one_first_match)
qed




lemma ObjectId_with_blanks:
  "ObjectId ''aa bb cc dd ee ff 00 11 ''
     = Inr [10, 10, 11, 11, 12, 12, 13, 13, 14, 14, 15, 15, 0, 0, 1, 1]"
  by code_simp




subsection \<open>Deleting content\<close>

text \<open>
  Claim C8. For every content type of the admin handlers and every well-formed content
  id, the delete (by an admin) removes the content item and every ad whose
  \<^verbatim>\<open>content_reference\<close> is that id: afterwards no ad refers to it, and the ads that
  remain are exactly the other ads.
\<close>

theorem delete_cascade:
  assumes "admin_required env = Some user"
    and "collection_map content_type = Some c"
    and "ObjectId id_str = Inr oid"
  shows "fst (admin_delete_content env content_type id_str st) = Redirect ''admin_content''
    \<and> filter (field_is ''content_reference'' (VOid oid))
         (ads_collection (snd (admin_delete_content env content_type id_str st))) = []
    \<and> ads_collection (snd (admin_delete_content env content_type id_str st))
         = filter (\<lambda>ad. map_of ad ''content_reference'' \<noteq> Some (VOid oid))
             (if c = Ads then delete_one (field_is ''_id'' (VOid oid)) (ads_collection st)
              else ads_collection st)
    \<and> (if c = Ads then True else
         get_collection c (snd (admin_delete_content env content_type id_str st))
          = delete_one (field_is ''_id'' (VOid oid)) (get_collection c st))"
  using assms
  by (simp add: admin_delete_content_def Let_def delete_many_def ads_set_collection
        get_collection_ads_update)

theorem delete_cascade_witness:
  "fst (admin_delete_content example_env ''jobs'' ''777777777777777777777777'' example_db)
      = Redirect ''admin_content''
   \<and> ads_collection
        (snd (admin_delete_content example_env ''jobs'' ''777777777777777777777777'' example_db))
      = []
   \<and> jobs_collection
        (snd (admin_delete_content example_env ''jobs'' ''777777777777777777777777'' example_db))
      = []"
  using delete_cascade [of example_env "''admin''" "''jobs''" Jobs "''777777777777777777777777''"
      "replicate 24 7" example_db] ObjectId_example(1)
  by (simp add: example_db_def example_ad_def example_job_def)

subsection \<open>Form data\<close>

lemma text_field_update_other: "k \<noteq> k' \<Longrightarrow> text_field k (AList.update k' v d) = text_field k d"
  by (simp add: text_field_def AList.update_conv')

lemma text_field_update_str: "text_field k (AList.update k' (VStr s) d) = (k = k' \<or> text_field k d)"
  by (auto simp add: text_field_def AList.update_conv')

lemma set_default_value_str: "\<exists>t. set_default_value (VStr s) = VStr t"
  by (simp add: set_default_value_def)

lemma map_of_map_snd:
  "map_of (map (\<lambda>p. (fst p, f (snd p))) xs) k = map_option f (map_of xs k)"
  by (induction xs) auto

lemma text_field_to_dict: "text_field k (to_dict f)"
  by (simp add: text_field_def to_dict_def map_of_map_snd split: option.splits)

lemma text_field_sanitize_key:
  assumes "text_field k d"
  shows "text_field k (sanitize_key key d)"
proof (cases "map_of d key")
  case None
  then show ?thesis using assms by (simp add: sanitize_key_def)
next
  case (Some v)
  show ?thesis
  proof (cases v)
    case (VStr s)
    obtain t where "set_default_value (VStr (sanitize_input s)) = VStr t"
      using set_default_value_str by blast
    then show ?thesis
      using assms Some VStr by (simp add: sanitize_key_def text_field_update_str)
  qed (use assms Some in \<open>simp_all add: sanitize_key_def\<close>)
qed

lemma text_field_fold_sanitize: "text_field k d \<Longrightarrow> text_field k (fold sanitize_key ks d)"
  by (induction ks arbitrary: d) (simp_all add: text_field_sanitize_key)

lemma text_field_add_image: "k \<noteq> ''image'' \<Longrightarrow> text_field k (add_image env req d) = text_field k d"
  by (simp add: add_image_def text_field_update_other split: option.splits)

lemma text_field_checkbox_if_present:
  "k \<noteq> k' \<Longrightarrow> text_field k (checkbox_if_present k' d) = text_field k d"
  by (simp add: checkbox_if_present_def text_field_update_other split: option.splits)

lemma text_field_split_requirements:
  "k \<noteq> ''requirements'' \<Longrightarrow> text_field k (split_requirements d) = text_field k d"
  by (simp add: split_requirements_def text_field_update_other split: option.splits val.splits)

lemma text_field_add_data:
  assumes "k \<notin> {''image'', ''posted_at'', ''admin_id'', ''certification'', ''active'', ''requirements''}"
  shows "text_field k (add_data env req user)"
  using assms
  by (simp add: add_data_def Let_def text_field_split_requirements text_field_checkbox_if_present
      text_field_update_other text_field_fold_sanitize text_field_add_image text_field_to_dict)

lemma py_slice_text:
  "text_field k d \<Longrightarrow> \<exists>s. py_slice n (dict_get_default d k (VStr dflt)) = Inr (VStr s)"
  by (auto simp: text_field_def py_slice_def dict_get_default_def split: option.splits val.splits)

lemma add_ad_data_ok:
  "\<exists>ad. add_ad_data env user content_type cid (add_data env req user) = Inr ad
     \<and> map_of ad ''_id'' = None
     \<and> map_of ad ''content_reference'' = Some cid
     \<and> map_of ad ''clicks'' = Some (VInt 0)
     \<and> map_of ad ''impressions'' = Some (VInt 0)
     \<and> map_of ad ''active'' = Some (VBool True)"
proof -
  have "text_field ''description'' (add_data env req user)"
    by (rule text_field_add_data) simp
  then obtain s where
    "py_slice 100 (dict_get_default (add_data env req user) ''description'' (VStr ''N/A'')) = Inr (VStr s)"
    using py_slice_text by blast
  then show ?thesis
    by (cases "truthy (dict_get (add_data env req user) ''role'')")
       (simp_all add: add_ad_data_def)
qed

lemma insert_one_no_id:
  "map_of doc ''_id'' = None \<Longrightarrow>
     insert_one fresh doc coll = Inr (VOid fresh, coll @ [AList.update ''_id'' (VOid fresh) doc])"
  by (simp add: insert_one_def)

lemma insert_one_result:
  "insert_one fresh doc coll = Inr (i, coll') \<Longrightarrow>
     \<exists>d. coll' = coll @ [d] \<and> map_of d ''_id'' = Some i"
  by (auto simp: insert_one_def AList.update_conv' split: option.splits if_splits)

text \<open>A field is absent from the stored dict exactly when the form lacks it; so a
  form without a field \<^verbatim>\<open>_id\<close> is always stored, under the id the driver
  generates. An item of type \<^verbatim>\<open>ads\<close> is itself a document of the ads.\<close>

lemma absent_update: "map_of (AList.update k' v d) k = None \<longleftrightarrow> k \<noteq> k' \<and> map_of d k = None"
  by (simp add: AList.update_conv')

lemma absent_to_dict: "map_of (to_dict f) k = None \<longleftrightarrow> map_of f k = None"
  by (simp add: to_dict_def map_of_map_snd AList.map_of_clearjunk)

lemma absent_sanitize_key: "map_of (sanitize_key key d) k = None \<longleftrightarrow> map_of d k = None"
  by (auto simp: sanitize_key_def absent_update split: option.splits val.splits)

lemma absent_fold_sanitize: "map_of (fold sanitize_key ks d) k = None \<longleftrightarrow> map_of d k = None"
  by (induction ks arbitrary: d) (simp_all add: absent_sanitize_key)

lemma absent_checkbox_if_present: "map_of (checkbox_if_present k' d) k = None \<longleftrightarrow> map_of d k = None"
  by (auto simp: checkbox_if_present_def absent_update split: option.splits)

lemma absent_split_requirements: "map_of (split_requirements d) k = None \<longleftrightarrow> map_of d k = None"
  by (auto simp: split_requirements_def absent_update split: option.splits val.splits)

lemma absent_add_image:
  "k \<noteq> ''image'' \<Longrightarrow> map_of (add_image env req d) k = None \<longleftrightarrow> map_of d k = None"
  by (auto simp: add_image_def absent_update split: option.splits)

lemma absent_add_data:
  assumes "k \<notin> {''image'', ''posted_at'', ''admin_id''}"
  shows "map_of (add_data env req user) k = None \<longleftrightarrow> map_of (form req) k = None"
  using assms
  by (simp add: add_data_def Let_def absent_split_requirements absent_checkbox_if_present
      absent_update absent_fold_sanitize absent_add_image absent_to_dict)

lemma create_succeeds:
  assumes "admin_required env = Some user"
    and "collection_map content_type = Some c"
    and "map_of (form req) ''_id'' = None"
  shows "insert_one (new_object_id env 0) (add_data env req user) (get_collection c st)
       = Inr (VOid (new_object_id env 0),
              get_collection c st @ [AList.update ''_id'' (VOid (new_object_id env 0))
                                       (add_data env req user)])
     \<and> fst (admin_add_content env req content_type st) = Redirect ''admin_content''"
proof -
  have "map_of (add_data env req user) ''_id'' = None"
    using assms(3) by (simp add: absent_add_data)
  then have ins: "insert_one (new_object_id env 0) (add_data env req user) (get_collection c st)
       = Inr (VOid (new_object_id env 0),
              get_collection c st @ [AList.update ''_id'' (VOid (new_object_id env 0))
                                       (add_data env req user)])"
    by (rule insert_one_no_id)
  obtain ad where "add_ad_data env user content_type (VOid (new_object_id env 0))
      (add_data env req user) = Inr ad" "map_of ad ''_id'' = None"
    using add_ad_data_ok by blast
  then show ?thesis
    using assms(1,2) ins by (simp add: admin_add_content_def insert_one_no_id Let_def)
qed

lemma create_ad_directly:
  assumes "admin_required env = Some user"
    and "insert_one (new_object_id env 0) (add_data env req user) (ads_collection st)
           = Inr (content_id, coll')"
    and "map_of (form req) ''promote_as_ad'' \<noteq> Some ''on''"
  shows "admin_add_content env req ''ads'' st
       = (Redirect ''admin_content'', st\<lparr>ads_collection := coll'\<rparr>)"
  using assms by (simp add: admin_add_content_def)

subsection \<open>Creating content\<close>

text \<open>
  Claim C3. For every create of a content item (a job, workshop, course, hackathon,
  roadmap or website: every content type of the admin handlers but \<^verbatim>\<open>ads\<close>, whose
  items are ads themselves) that stores the item under the id \<open>content_id\<close>: without
  the flag \<^verbatim>\<open>promote_as_ad\<close> the ads are unchanged, no ad document is created;
  with the flag exactly one ad document is appended to the ads, its
  \<^verbatim>\<open>content_reference\<close> is \<open>content_id\<close>, its \<^verbatim>\<open>clicks\<close> and
  \<^verbatim>\<open>impressions\<close> are 0 and it is active.
\<close>

theorem create_promotion:
  assumes "admin_required env = Some user"
    and "collection_map content_type = Some c"
    and "c \<noteq> Ads"
    and "insert_one (new_object_id env 0) (add_data env req user) (get_collection c st)
           = Inr (content_id, coll')"
  shows "(\<exists>doc. coll' = get_collection c st @ [doc] \<and> map_of doc ''_id'' = Some content_id)
    \<and> (map_of (form req) ''promote_as_ad'' \<noteq> Some ''on'' \<longrightarrow>
         admin_add_content env req content_type st
           = (Redirect ''admin_content'', set_collection c coll' st)
         \<and> ads_collection (set_collection c coll' st) = ads_collection st)
    \<and> (map_of (form req) ''promote_as_ad'' = Some ''on'' \<longrightarrow>
         (\<exists>ad. admin_add_content env req content_type st
                 = (Redirect ''admin_content'',
                    (set_collection c coll' st)\<lparr>ads_collection := ads_collection st @ [ad]\<rparr>)
              \<and> map_of ad ''content_reference'' = Some content_id
              \<and> map_of ad ''clicks'' = Some (VInt 0)
              \<and> map_of ad ''impressions'' = Some (VInt 0)
              \<and> map_of ad ''active'' = Some (VBool True)))"
proof (intro conjI impI)
  show "\<exists>doc. coll' = get_collection c st @ [doc] \<and> map_of doc ''_id'' = Some content_id"
    using assms(4) by (rule insert_one_result)
next
  assume "map_of (form req) ''promote_as_ad'' \<noteq> Some ''on''"
  then show "admin_add_content env req content_type st
      = (Redirect ''admin_content'', set_collection c coll' st)"
    using assms by (simp add: admin_add_content_def)
next
  show "ads_collection (set_collection c coll' st) = ads_collection st"
    using assms(3) by (simp add: ads_set_collection)
next
  assume p: "map_of (form req) ''promote_as_ad'' = Some ''on''"
  obtain ad where ad: "add_ad_data env user content_type content_id (add_data env req user) = Inr ad"
    "map_of ad ''_id'' = None" "map_of ad ''content_reference'' = Some content_id"
    "map_of ad ''clicks'' = Some (VInt 0)" "map_of ad ''impressions'' = Some (VInt 0)"
    "map_of ad ''active'' = Some (VBool True)"
    using add_ad_data_ok by blast
  let ?ad = "AList.update ''_id'' (VOid (new_object_id env 1)) ad"
  have "admin_add_content env req content_type st
      = (Redirect ''admin_content'',
         (set_collection c coll' st)\<lparr>ads_collection := ads_collection st @ [?ad]\<rparr>)"
    using assms p ad by (simp add: admin_add_content_def insert_one_no_id ads_set_collection)
  moreover have "map_of ?ad ''content_reference'' = Some content_id"
    "map_of ?ad ''clicks'' = Some (VInt 0)" "map_of ?ad ''impressions'' = Some (VInt 0)"
    "map_of ?ad ''active'' = Some (VBool True)"
    using ad by (simp_all add: AList.update_conv')
  ultimately show "\<exists>ad. admin_add_content env req content_type st
                 = (Redirect ''admin_content'',
                    (set_collection c coll' st)\<lparr>ads_collection := ads_collection st @ [ad]\<rparr>)
              \<and> map_of ad ''content_reference'' = Some content_id
              \<and> map_of ad ''clicks'' = Some (VInt 0)
              \<and> map_of ad ''impressions'' = Some (VInt 0)
              \<and> map_of ad ''active'' = Some (VBool True)"
    by blast
qed

theorem create_promotion_witness:
  "(\<exists>ad. admin_add_content example_env \<lparr>form = example_form, image_file = None\<rparr> ''jobs'' example_db
        = (Redirect ''admin_content'',
           example_db\<lparr>jobs_collection :=
               [example_job,
                [(''company_name'', VStr ''Initech''), (''role'', VStr ''Engineer''),
                 (''description'', VStr ''Build &lt;things&gt;''),
                 (''official_link'', VStr ''https://example.org/apply''),
                 (''promote_as_ad'', VStr ''on''),
                 (''posted_at'', VTime 1700000000000000),
                 (''admin_id'', VStr ''admin''),
                 (''_id'', VOid (replicate 24 0))]],
             ads_collection := [example_ad, ad]\<rparr>)
      \<and> map_of ad ''content_reference'' = Some (VOid (replicate 24 0))
      \<and> map_of ad ''clicks'' = Some (VInt 0)
      \<and> map_of ad ''impressions'' = Some (VInt 0)
      \<and> map_of ad ''active'' = Some (VBool True))
   \<and> admin_add_content example_env \<lparr>form = [(''name'', ''Guide'')], image_file = None\<rparr>
        ''websites'' example_db
      = (Redirect ''admin_content'',
         example_db\<lparr>websites_collection :=
             [example_website,
              [(''name'', VStr ''Guide''), (''posted_at'', VTime 1700000000000000),
               (''admin_id'', VStr ''admin''), (''_id'', VOid (replicate 24 0))]]\<rparr>)"
proof -
  have job: "insert_one (new_object_id example_env 0)
        (add_data example_env \<lparr>form = example_form, image_file = None\<rparr> ''admin'')
        (get_collection Jobs example_db)
      = Inr (VOid (replicate 24 0),
             [example_job,
              [(''company_name'', VStr ''Initech''), (''role'', VStr ''Engineer''),
               (''description'', VStr ''Build &lt;things&gt;''),
               (''official_link'', VStr ''https://example.org/apply''),
               (''promote_as_ad'', VStr ''on''),
               (''posted_at'', VTime 1700000000000000),
               (''admin_id'', VStr ''admin''),
               (''_id'', VOid (replicate 24 0))]])"
    by code_simp
  have site: "insert_one (new_object_id example_env 0)
        (add_data example_env \<lparr>form = [(''name'', ''Guide'')], image_file = None\<rparr> ''admin'')
        (get_collection Websites example_db)
      = Inr (VOid (replicate 24 0),
             [example_website,
              [(''name'', VStr ''Guide''), (''posted_at'', VTime 1700000000000000),
               (''admin_id'', VStr ''admin''), (''_id'', VOid (replicate 24 0))]])"
    by code_simp
  have ads: "ads_collection example_db = [example_ad]"
    by (simp add: example_db_def)
  show ?thesis
    using create_promotion [OF admin_example collection_map_simps(1) _ job]
      create_promotion [OF admin_example collection_map_simps(6) _ site]
    by (simp add: example_form_def ads)
qed

subsection \<open>Editing content\<close>

lemma text_field_delete: "k \<noteq> k' \<Longrightarrow> text_field k (AList.delete k' d) = text_field k d"
  by (simp add: text_field_def)

lemma text_field_edit_image: "k \<noteq> ''image'' \<Longrightarrow> text_field k (edit_image env req d) = text_field k d"
  by (simp add: edit_image_def text_field_update_other split: option.splits)

lemma text_field_checkbox_or_false:
  "k \<noteq> k' \<Longrightarrow> text_field k (checkbox_or_false k' d) = text_field k d"
  by (simp add: checkbox_or_false_def text_field_update_other)

lemma text_field_edit_key:
  assumes "text_field k d" and "k \<notin> {''certification'', ''active'', ''is_project''}"
  shows "text_field k (edit_key key d)"
proof (cases "map_of d key")
  case None
  then show ?thesis using assms by (simp add: edit_key_def)
next
  case (Some v)
  show ?thesis
  proof (cases v)
    case (VStr s)
    obtain t where "set_default_value (VStr (sanitize_input s)) = VStr t"
      using set_default_value_str by blast
    then show ?thesis
      using assms Some VStr
      by (simp add: edit_key_def text_field_update_str text_field_checkbox_or_false)
  qed (use assms Some in \<open>simp_all add: edit_key_def\<close>)
qed

lemma text_field_fold_edit:
  "text_field k d \<Longrightarrow> k \<notin> {''certification'', ''active'', ''is_project''} \<Longrightarrow>
     text_field k (fold edit_key ks d)"
  by (induction ks arbitrary: d) (simp_all add: text_field_edit_key)

lemma text_field_edit_data:
  assumes "k \<notin> {''image'', ''promote_as_ad'', ''updated_at'', ''certification'', ''active'',
                  ''is_project'', ''requirements''}"
  shows "text_field k (edit_data env req)"
  using assms
  by (simp add: edit_data_def Let_def text_field_split_requirements text_field_update_other
      text_field_fold_edit text_field_delete text_field_edit_image text_field_to_dict)

lemma edit_ad_data_ok:
  "\<exists>title description image link.
     edit_ad_data env user content_type oid (edit_data env req)
       = Inr [(''title'', title), (''description'', description), (''image'', image),
              (''link'', link), (''content_type'', VStr content_type),
              (''content_reference'', VOid oid), (''active'', VBool True),
              (''updated_at'', VTime (utcnow env)), (''admin_id'', VStr user)]"
proof -
  have "text_field ''role'' (edit_data env req)" "text_field ''description'' (edit_data env req)"
    by (rule text_field_edit_data, simp)+
  then have "\<exists>s. py_slice 150 (py_or (dict_get (edit_data env req) ''role'')
        (dict_get_default (edit_data env req) ''description'' (VStr ''''))) = Inr (VStr s)"
    by (auto simp: text_field_def py_slice_def py_or_def dict_get_def dict_get_default_def
        split: option.splits val.splits)
  then obtain s where
    "py_slice 150 (py_or (dict_get (edit_data env req) ''role'')
        (dict_get_default (edit_data env req) ''description'' (VStr ''''))) = Inr (VStr s)"
    by blast
  then show ?thesis
    by (simp add: edit_ad_data_def)
qed

lemma find_one_first:
  "\<not> list_ex q pre \<Longrightarrow> q d \<Longrightarrow> find_one q (pre @ d # post) = Some d"
  by (induction pre) (auto simp: find_one_def)

lemma find_one_none: "\<not> list_ex q ds \<Longrightarrow> find_one q ds = None"
  by (induction ds) (auto simp: find_one_def)

lemma include_id:
  "map_of d ''_id'' = Some i \<Longrightarrow> \<exists>rest. include_fields [] d = (''_id'', i) # rest"
  by (induction d) (auto simp: include_fields_def)

lemma field_is_self: "map_of d k = Some v \<Longrightarrow> field_is k v d"
  by (auto simp: field_is_def split: val.splits)

lemma content_type_promotable:
  assumes "content_type \<in> set [''jobs'', ''workshops'', ''courses'', ''hackathons'']"
    and "collection_map content_type = Some c"
  shows "c \<noteq> Ads"
  using assms by auto

lemma set_op_fields:
  "distinct (map fst fs) \<Longrightarrow>
     map_of (fold (\<lambda>p. AList.update (fst p) (snd p)) fs d) k
       = (case map_of fs k of Some v \<Rightarrow> Some v | None \<Rightarrow> map_of d k)"
proof (induction fs arbitrary: d)
  case Nil
  then show ?case by simp
next
  case (Cons p fs)
  obtain a x where p: "p = (a, x)"
    by (cases p)
  from Cons.prems have "map_of fs a = None"
    by (auto simp: p map_of_eq_None_iff)
  with Cons show ?case
    by (auto simp: p AList.update_conv' split: option.splits)
qed

text \<open>
  Claim C2, as the code has it. The ad part of an edit runs only for the content types
  \<^verbatim>\<open>jobs\<close>, \<^verbatim>\<open>workshops\<close>, \<^verbatim>\<open>courses\<close> and \<^verbatim>\<open>hackathons\<close>. For every
  edit (by an admin, with an id that \<^verbatim>\<open>ObjectId\<close> accepts, whose content update goes
  through) the ad fields \<open>ad_data\<close> are derived from the edited fields: title,
  description (the role or else the description, cut to 150 characters), image, link,
  content type, content reference, \<^verbatim>\<open>active = True\<close>, the time of the edit and the
  admin. For an item of the four types: with the flag set and an ad that refers to the
  content (the first such ad, whose id no earlier ad has), that same ad is updated in
  place: it stays at its position, every field of \<open>ad_data\<close> is written and every other
  field, its id, its \<^verbatim>\<open>clicks\<close> and its \<^verbatim>\<open>impressions\<close> among them, is as it
  was; with the flag set and no such ad, exactly one new ad is appended, made of
  \<open>ad_data\<close>, zero counters, the posting time and a new id; with the flag cleared, the
  ads that refer to the content are deleted and the others stay. For a roadmap or a
  website the edit leaves the ads as they are, whatever the flag.
\<close>

theorem edit_promotion_contract:
  assumes "admin_required env = Some user"
    and "collection_map content_type = Some c"
    and "ObjectId id_str = Inr oid"
    and "update_one (field_is ''_id'' (VOid oid)) (set_op (edit_data env req))
           (get_collection c st) = Inr (m, coll')"
  shows
   "\<exists>description.
      py_slice 150 (py_or (dict_get (edit_data env req) ''role'')
                      (dict_get_default (edit_data env req) ''description'' (VStr '''')))
        = Inr (VStr description)
    \<and> (let data = edit_data env req;
            ad_data =
              [(''title'',
                  py_or (dict_get data ''company_name'')
                    (py_or (dict_get data ''name'') (VStr ''Opportunity''))),
               (''description'', VStr description),
               (''image'', dict_get_default data ''image'' (VStr '''')),
               (''link'', dict_get_default data ''official_link'' (VStr ''#'')),
               (''content_type'', VStr content_type),
               (''content_reference'', VOid oid),
               (''active'', VBool True),
               (''updated_at'', VTime (utcnow env)),
               (''admin_id'', VStr user)]
        in
          (content_type \<in> set [''jobs'', ''workshops'', ''courses'', ''hackathons'']
             \<and> map_of (form req) ''promote_as_ad'' = Some ''on''
             \<and> ads_collection st = before @ ad # after
             \<and> \<not> list_ex (field_is ''content_reference'' (VOid oid)) before
             \<and> field_is ''content_reference'' (VOid oid) ad
             \<and> map_of ad ''_id'' = Some i
             \<and> \<not> list_ex (field_is ''_id'' i) before \<longrightarrow>
           (\<exists>ad'. admin_edit_content env req content_type id_str st
                    = (Redirect ''admin_content'',
                       (set_collection c coll' st)\<lparr>ads_collection := before @ ad' # after\<rparr>)
                \<and> (\<forall>k. map_of ad' k
                          = (case map_of ad_data k of Some v \<Rightarrow> Some v | None \<Rightarrow> map_of ad k))
                \<and> map_of ad' ''_id'' = Some i
                \<and> map_of ad' ''clicks'' = map_of ad ''clicks''
                \<and> map_of ad' ''impressions'' = map_of ad ''impressions''))
        \<and> (content_type \<in> set [''jobs'', ''workshops'', ''courses'', ''hackathons'']
             \<and> map_of (form req) ''promote_as_ad'' = Some ''on''
             \<and> \<not> list_ex (field_is ''content_reference'' (VOid oid)) (ads_collection st) \<longrightarrow>
           admin_edit_content env req content_type id_str st
             = (Redirect ''admin_content'',
                (set_collection c coll' st)\<lparr>ads_collection := ads_collection st @
                   [ad_data @ [(''clicks'', VInt 0), (''impressions'', VInt 0),
                               (''posted_at'', VTime (utcnow env)),
                               (''_id'', VOid (new_object_id env 0))]]\<rparr>))
        \<and> (content_type \<in> set [''jobs'', ''workshops'', ''courses'', ''hackathons'']
             \<and> map_of (form req) ''promote_as_ad'' \<noteq> Some ''on'' \<longrightarrow>
           admin_edit_content env req content_type id_str st
             = (Redirect ''admin_content'',
                (set_collection c coll' st)\<lparr>ads_collection :=
                   filter (\<lambda>a. map_of a ''content_reference'' \<noteq> Some (VOid oid))
                     (ads_collection st)\<rparr>))
        \<and> (content_type \<in> set [''roadmaps'', ''websites''] \<longrightarrow>
           admin_edit_content env req content_type id_str st
             = (Redirect ''admin_content'', set_collection c coll' st)
           \<and> ads_collection (set_collection c coll' st) = ads_collection st))"
proof -
  let ?data = "edit_data env req"
  let ?four = "content_type \<in> set [''jobs'', ''workshops'', ''courses'', ''hackathons'']"
  have "text_field ''role'' ?data" "text_field ''description'' ?data"
    by (rule text_field_edit_data, simp)+
  then have "\<exists>s. py_slice 150 (py_or (dict_get ?data ''role'')
        (dict_get_default ?data ''description'' (VStr ''''))) = Inr (VStr s)"
    by (auto simp: text_field_def py_slice_def py_or_def dict_get_def dict_get_default_def
        split: option.splits val.splits)
  then obtain description where d:
    "py_slice 150 (py_or (dict_get ?data ''role'')
        (dict_get_default ?data ''description'' (VStr ''''))) = Inr (VStr description)"
    by blast
  let ?ad_data = "[(''title'',
                  py_or (dict_get ?data ''company_name'')
                    (py_or (dict_get ?data ''name'') (VStr ''Opportunity''))),
               (''description'', VStr description),
               (''image'', dict_get_default ?data ''image'' (VStr '''')),
               (''link'', dict_get_default ?data ''official_link'' (VStr ''#'')),
               (''content_type'', VStr content_type),
               (''content_reference'', VOid oid),
               (''active'', VBool True),
               (''updated_at'', VTime (utcnow env)),
               (''admin_id'', VStr user)]"
  have ad_data: "edit_ad_data env user content_type oid ?data = Inr ?ad_data"
    by (simp add: edit_ad_data_def d)
  have keys: "distinct (map fst ?ad_data)" "map_of ?ad_data ''_id'' = None"
    "map_of ?ad_data ''clicks'' = None" "map_of ?ad_data ''impressions'' = None"
    by simp_all
  have main: "admin_edit_content env req content_type id_str st
      = (case edit_promotion env user content_type oid
                (map_of (form req) ''promote_as_ad'' = Some ''on'')
                ?data (ads_collection st) of
           Inl e \<Rightarrow> (Unhandled e, set_collection c coll' st)
         | Inr ads' \<Rightarrow> (Redirect ''admin_content'',
                         (set_collection c coll' st)\<lparr>ads_collection := ads'\<rparr>))"
    if four: ?four
  proof -
    have "c \<noteq> Ads"
      using four assms(2) by (rule content_type_promotable)
    then show ?thesis
      using assms four by (simp add: admin_edit_content_def ads_set_collection Let_def)
  qed
  have A: "\<exists>ad'. admin_edit_content env req content_type id_str st
                    = (Redirect ''admin_content'',
                       (set_collection c coll' st)\<lparr>ads_collection := before @ ad' # after\<rparr>)
                \<and> (\<forall>k. map_of ad' k
                          = (case map_of ?ad_data k of Some v \<Rightarrow> Some v | None \<Rightarrow> map_of ad k))
                \<and> map_of ad' ''_id'' = Some i
                \<and> map_of ad' ''clicks'' = map_of ad ''clicks''
                \<and> map_of ad' ''impressions'' = map_of ad ''impressions''"
    if a: "?four
             \<and> map_of (form req) ''promote_as_ad'' = Some ''on''
             \<and> ads_collection st = before @ ad # after
             \<and> \<not> list_ex (field_is ''content_reference'' (VOid oid)) before
             \<and> field_is ''content_reference'' (VOid oid) ad
             \<and> map_of ad ''_id'' = Some i
             \<and> \<not> list_ex (field_is ''_id'' i) before"
  proof -
    from a have found:
      "find_one (field_is ''content_reference'' (VOid oid)) (ads_collection st) = Some ad"
      by (simp add: find_one_first)
    obtain rest where inc: "include_fields [] ad = (''_id'', i) # rest"
      using a include_id by blast
    let ?ad' = "fold (\<lambda>p. AList.update (fst p) (snd p)) ?ad_data ad"
    have set: "set_op ?ad_data ad = Inr ?ad'"
      by (simp add: set_op_def)
    have upd: "update_one (field_is ''_id'' i) (set_op ?ad_data) (ads_collection st)
        = Inr (1, before @ ?ad' # after)"
      using a by (simp add: update_one_first_match field_is_self set)
    have "edit_promotion env user content_type oid True ?data (ads_collection st)
        = Inr (before @ ?ad' # after)"
      by (simp add: edit_promotion_def ad_data found inc upd)
    then have r: "admin_edit_content env req content_type id_str st
        = (Redirect ''admin_content'',
           (set_collection c coll' st)\<lparr>ads_collection := before @ ?ad' # after\<rparr>)"
      using a by (simp add: main)
    have all: "\<forall>k. map_of ?ad' k
        = (case map_of ?ad_data k of Some v \<Rightarrow> Some v | None \<Rightarrow> map_of ad k)"
      using set_op_fields [OF keys(1)] by blast
    have "map_of ?ad' ''_id'' = Some i" "map_of ?ad' ''clicks'' = map_of ad ''clicks''"
      "map_of ?ad' ''impressions'' = map_of ad ''impressions''"
      using a by (simp_all add: AList.update_conv')
    with r all show ?thesis
      by blast
  qed
  have B: "admin_edit_content env req content_type id_str st
             = (Redirect ''admin_content'',
                (set_collection c coll' st)\<lparr>ads_collection := ads_collection st @
                   [?ad_data @ [(''clicks'', VInt 0), (''impressions'', VInt 0),
                               (''posted_at'', VTime (utcnow env)),
                               (''_id'', VOid (new_object_id env 0))]]\<rparr>)"
    if a: "?four \<and> map_of (form req) ''promote_as_ad'' = Some ''on''
             \<and> \<not> list_ex (field_is ''content_reference'' (VOid oid)) (ads_collection st)"
  proof -
    from a have nf:
      "find_one (field_is ''content_reference'' (VOid oid)) (ads_collection st) = None"
      by (simp add: find_one_none)
    have "edit_promotion env user content_type oid True ?data (ads_collection st)
        = Inr (ads_collection st @
                 [?ad_data @ [(''clicks'', VInt 0), (''impressions'', VInt 0),
                              (''posted_at'', VTime (utcnow env)),
                              (''_id'', VOid (new_object_id env 0))]])"
      by (simp add: edit_promotion_def ad_data nf insert_one_def)
    then show ?thesis
      using a by (simp add: main)
  qed
  have C: "admin_edit_content env req content_type id_str st
             = (Redirect ''admin_content'',
                (set_collection c coll' st)\<lparr>ads_collection :=
                   filter (\<lambda>a. map_of a ''content_reference'' \<noteq> Some (VOid oid))
                     (ads_collection st)\<rparr>)"
    if a: "?four \<and> map_of (form req) ''promote_as_ad'' \<noteq> Some ''on''"
    using a by (simp add: main edit_promotion_def delete_many_def)
  have D: "admin_edit_content env req content_type id_str st
             = (Redirect ''admin_content'', set_collection c coll' st)
           \<and> ads_collection (set_collection c coll' st) = ads_collection st"
    if a: "content_type \<in> set [''roadmaps'', ''websites'']"
  proof -
    from a assms(2) have "c = Roadmaps \<or> c = Websites"
      by auto
    then have "ads_collection (set_collection c coll' st) = ads_collection st"
      by (auto simp: ads_set_collection)
    moreover have "admin_edit_content env req content_type id_str st
             = (Redirect ''admin_content'', set_collection c coll' st)"
      using a assms by (auto simp: admin_edit_content_def Let_def)
    ultimately show ?thesis
      by simp
  qed
  show ?thesis
    unfolding Let_def
    using d A B C D by blast
qed

theorem edit_promotion_contract_witness:
  "(\<exists>ad'. ads_collection (snd (admin_edit_content example_env
                \<lparr>form = example_form, image_file = None\<rparr> ''jobs''
                ''777777777777777777777777'' example_db)) = [ad']
        \<and> map_of example_ad ''title'' = Some (VStr ''Acme'')
        \<and> map_of ad' ''title'' = Some (VStr ''Initech'')
        \<and> map_of ad' ''description'' = Some (VStr ''Engineer'')
        \<and> map_of ad' ''link'' = Some (VStr ''https://example.org/apply'')
        \<and> map_of ad' ''updated_at'' = Some (VTime 1700000000000000)
        \<and> map_of ad' ''_id'' = Some (VOid (replicate 24 9))
        \<and> map_of ad' ''clicks'' = Some (VInt 5)
        \<and> map_of ad' ''impressions'' = Some (VInt 12))
   \<and> ads_collection (snd (admin_edit_content example_env
          \<lparr>form = example_form, image_file = None\<rparr> ''jobs''
          ''777777777777777777777777'' (example_db\<lparr>ads_collection := []\<rparr>)))
       = [[(''title'', VStr ''Initech''), (''description'', VStr ''Engineer''),
           (''image'', VStr ''''), (''link'', VStr ''https://example.org/apply''),
           (''content_type'', VStr ''jobs''), (''content_reference'', VOid (replicate 24 7)),
           (''active'', VBool True), (''updated_at'', VTime 1700000000000000),
           (''admin_id'', VStr ''admin''), (''clicks'', VInt 0), (''impressions'', VInt 0),
           (''posted_at'', VTime 1700000000000000), (''_id'', VOid (replicate 24 0))]]
   \<and> ads_collection (snd (admin_edit_content example_env
          \<lparr>form = [(''role'', ''Trainee'')], image_file = None\<rparr> ''jobs''
          ''777777777777777777777777'' example_db)) = []
   \<and> ads_collection (snd (admin_edit_content example_env
          \<lparr>form = [(''name'', ''Manual''), (''promote_as_ad'', ''on'')], image_file = None\<rparr>
          ''websites'' ''888888888888888888888888'' example_db)) = [example_ad]"
proof -
  let ?req = "\<lparr>form = example_form, image_file = None\<rparr>"
  let ?D = "edit_data example_env ?req"
  have jobs: "''jobs'' \<in> set [''jobs'', ''workshops'', ''courses'', ''hackathons'']"
    by simp
  have u1: "update_one (field_is ''_id'' (VOid (replicate 24 7))) (set_op ?D)
         (get_collection Jobs example_db)
     = Inr (1, [[(''_id'', VOid (replicate 24 7)),
                 (''company_name'', VStr ''Initech''), (''role'', VStr ''Engineer''),
                 (''posted_at'', VTime 1699999000000000), (''admin_id'', VStr ''admin''),
                 (''description'', VStr ''Build &lt;things&gt;''),
                 (''official_link'', VStr ''https://example.org/apply''),
                 (''certification'', VBool False), (''active'', VBool False),
                 (''is_project'', VBool False), (''updated_at'', VTime 1700000000000000)]])"
    by code_simp
  have u2: "update_one (field_is ''_id'' (VOid (replicate 24 7))) (set_op ?D)
         (get_collection Jobs (example_db\<lparr>ads_collection := []\<rparr>))
     = Inr (1, [[(''_id'', VOid (replicate 24 7)),
                 (''company_name'', VStr ''Initech''), (''role'', VStr ''Engineer''),
                 (''posted_at'', VTime 1699999000000000), (''admin_id'', VStr ''admin''),
                 (''description'', VStr ''Build &lt;things&gt;''),
                 (''official_link'', VStr ''https://example.org/apply''),
                 (''certification'', VBool False), (''active'', VBool False),
                 (''is_project'', VBool False), (''updated_at'', VTime 1700000000000000)]])"
    by code_simp
  have u3: "update_one (field_is ''_id'' (VOid (replicate 24 7)))
         (set_op (edit_data example_env \<lparr>form = [(''role'', ''Trainee'')], image_file = None\<rparr>))
         (get_collection Jobs example_db)
     = Inr (1, [[(''_id'', VOid (replicate 24 7)),
                 (''company_name'', VStr ''Acme''), (''role'', VStr ''Trainee''),
                 (''posted_at'', VTime 1699999000000000), (''admin_id'', VStr ''admin''),
                 (''certification'', VBool False), (''active'', VBool False),
                 (''is_project'', VBool False), (''updated_at'', VTime 1700000000000000)]])"
    by code_simp
  have u4: "update_one (field_is ''_id'' (VOid (replicate 24 8)))
         (set_op (edit_data example_env
            \<lparr>form = [(''name'', ''Manual''), (''promote_as_ad'', ''on'')], image_file = None\<rparr>))
         (get_collection Websites example_db)
     = Inr (1, [[(''_id'', VOid (replicate 24 8)), (''name'', VStr ''Manual''),
                 (''posted_at'', VTime 1699990000000000), (''admin_id'', VStr ''admin''),
                 (''certification'', VBool False), (''active'', VBool False),
                 (''is_project'', VBool False), (''updated_at'', VTime 1700000000000000)]])"
    by code_simp
  have e: "py_slice 150 (py_or (dict_get ?D ''role'')
              (dict_get_default ?D ''description'' (VStr ''''))) = Inr (VStr ''Engineer'')"
    "py_or (dict_get ?D ''company_name'') (py_or (dict_get ?D ''name'') (VStr ''Opportunity''))
       = VStr ''Initech''"
    "dict_get_default ?D ''image'' (VStr '''') = VStr ''''"
    "dict_get_default ?D ''official_link'' (VStr ''#'') = VStr ''https://example.org/apply''"
    by code_simp+
  have on: "map_of (form ?req) ''promote_as_ad'' = Some ''on''"
    by (simp add: example_form_def)
  have off: "map_of (form \<lparr>form = [(''role'', ''Trainee'')], image_file = None\<rparr>) ''promote_as_ad''
      \<noteq> Some ''on''"
    by simp
  have ad: "ads_collection example_db = [] @ example_ad # []"
    "\<not> list_ex (field_is ''content_reference'' (VOid (replicate 24 7))) []"
    "field_is ''content_reference'' (VOid (replicate 24 7)) example_ad"
    "map_of example_ad ''_id'' = Some (VOid (replicate 24 9))"
    "\<not> list_ex (field_is ''_id'' (VOid (replicate 24 9))) []"
    by (simp_all add: example_db_def example_ad_def)
  have old: "map_of example_ad ''clicks'' = Some (VInt 5)"
    "map_of example_ad ''impressions'' = Some (VInt 12)"
    "map_of example_ad ''title'' = Some (VStr ''Acme'')"
    by (simp_all add: example_ad_def)
  have env: "utcnow example_env = 1700000000000000" "new_object_id example_env 0 = replicate 24 0"
    by (simp_all add: example_env_def)
  have none: "\<not> list_ex (field_is ''content_reference'' (VOid (replicate 24 7)))
      (ads_collection (example_db\<lparr>ads_collection := []\<rparr>))"
    by simp
  have a: "\<exists>ad'. ads_collection (snd (admin_edit_content example_env ?req ''jobs''
                ''777777777777777777777777'' example_db)) = [ad']
        \<and> map_of example_ad ''title'' = Some (VStr ''Acme'')
        \<and> map_of ad' ''title'' = Some (VStr ''Initech'')
        \<and> map_of ad' ''description'' = Some (VStr ''Engineer'')
        \<and> map_of ad' ''link'' = Some (VStr ''https://example.org/apply'')
        \<and> map_of ad' ''updated_at'' = Some (VTime 1700000000000000)
        \<and> map_of ad' ''_id'' = Some (VOid (replicate 24 9))
        \<and> map_of ad' ''clicks'' = Some (VInt 5)
        \<and> map_of ad' ''impressions'' = Some (VInt 12)"
  proof -
    from edit_promotion_contract [where before = "[]" and ad = example_ad and after = "[]"
        and i = "VOid (replicate 24 9)", OF admin_example collection_map_simps(1)
        ObjectId_example(1) u1, unfolded Let_def]
    obtain description where d: "py_slice 150 (py_or (dict_get ?D ''role'')
              (dict_get_default ?D ''description'' (VStr ''''))) = Inr (VStr description)"
      and "\<exists>ad'. admin_edit_content example_env ?req ''jobs'' ''777777777777777777777777'' example_db
            = (Redirect ''admin_content'',
               (set_collection Jobs [[(''_id'', VOid (replicate 24 7)),
                 (''company_name'', VStr ''Initech''), (''role'', VStr ''Engineer''),
                 (''posted_at'', VTime 1699999000000000), (''admin_id'', VStr ''admin''),
                 (''description'', VStr ''Build &lt;things&gt;''),
                 (''official_link'', VStr ''https://example.org/apply''),
                 (''certification'', VBool False), (''active'', VBool False),
                 (''is_project'', VBool False), (''updated_at'', VTime 1700000000000000)]]
                 example_db)\<lparr>ads_collection := [] @ ad' # []\<rparr>)
          \<and> (\<forall>k. map_of ad' k
                = (case map_of
                     [(''title'',
                        py_or (dict_get ?D ''company_name'')
                          (py_or (dict_get ?D ''name'') (VStr ''Opportunity''))),
                      (''description'', VStr description),
                      (''image'', dict_get_default ?D ''image'' (VStr '''')),
                      (''link'', dict_get_default ?D ''official_link'' (VStr ''#'')),
                      (''content_type'', VStr ''jobs''),
                      (''content_reference'', VOid (replicate 24 7)),
                      (''active'', VBool True),
                      (''updated_at'', VTime (utcnow example_env)),
                      (''admin_id'', VStr ''admin'')] k of
                     Some v \<Rightarrow> Some v | None \<Rightarrow> map_of example_ad k))
          \<and> map_of ad' ''_id'' = Some (VOid (replicate 24 9))
          \<and> map_of ad' ''clicks'' = map_of example_ad ''clicks''
          \<and> map_of ad' ''impressions'' = map_of example_ad ''impressions''"
      using jobs on ad by blast
    then obtain ad' where r: "admin_edit_content example_env ?req ''jobs''
          ''777777777777777777777777'' example_db
            = (Redirect ''admin_content'',
               (set_collection Jobs [[(''_id'', VOid (replicate 24 7)),
                 (''company_name'', VStr ''Initech''), (''role'', VStr ''Engineer''),
                 (''posted_at'', VTime 1699999000000000), (''admin_id'', VStr ''admin''),
                 (''description'', VStr ''Build &lt;things&gt;''),
                 (''official_link'', VStr ''https://example.org/apply''),
                 (''certification'', VBool False), (''active'', VBool False),
                 (''is_project'', VBool False), (''updated_at'', VTime 1700000000000000)]]
                 example_db)\<lparr>ads_collection := [] @ ad' # []\<rparr>)"
      and k: "\<And>k. map_of ad' k
                = (case map_of
                     [(''title'',
                        py_or (dict_get ?D ''company_name'')
                          (py_or (dict_get ?D ''name'') (VStr ''Opportunity''))),
                      (''description'', VStr description),
                      (''image'', dict_get_default ?D ''image'' (VStr '''')),
                      (''link'', dict_get_default ?D ''official_link'' (VStr ''#'')),
                      (''content_type'', VStr ''jobs''),
                      (''content_reference'', VOid (replicate 24 7)),
                      (''active'', VBool True),
                      (''updated_at'', VTime (utcnow example_env)),
                      (''admin_id'', VStr ''admin'')] k of
                     Some v \<Rightarrow> Some v | None \<Rightarrow> map_of example_ad k)"
      and keep: "map_of ad' ''_id'' = Some (VOid (replicate 24 9))"
        "map_of ad' ''clicks'' = map_of example_ad ''clicks''"
        "map_of ad' ''impressions'' = map_of example_ad ''impressions''"
      by blast
    have descr: "description = ''Engineer''"
      using d e(1) by simp
    have "ads_collection (snd (admin_edit_content example_env ?req ''jobs''
                ''777777777777777777777777'' example_db)) = [ad']"
      by (simp add: r)
    moreover have "map_of ad' ''title'' = Some (VStr ''Initech'')"
      "map_of ad' ''description'' = Some (VStr ''Engineer'')"
      "map_of ad' ''link'' = Some (VStr ''https://example.org/apply'')"
      "map_of ad' ''updated_at'' = Some (VTime 1700000000000000)"
      by (simp_all add: k e descr env)
    ultimately show ?thesis
      using keep old by auto
  qed
  have b: "ads_collection (snd (admin_edit_content example_env ?req ''jobs''
          ''777777777777777777777777'' (example_db\<lparr>ads_collection := []\<rparr>)))
       = [[(''title'', VStr ''Initech''), (''description'', VStr ''Engineer''),
           (''image'', VStr ''''), (''link'', VStr ''https://example.org/apply''),
           (''content_type'', VStr ''jobs''), (''content_reference'', VOid (replicate 24 7)),
           (''active'', VBool True), (''updated_at'', VTime 1700000000000000),
           (''admin_id'', VStr ''admin''), (''clicks'', VInt 0), (''impressions'', VInt 0),
           (''posted_at'', VTime 1700000000000000), (''_id'', VOid (replicate 24 0))]]"
  proof -
    from edit_promotion_contract [OF admin_example collection_map_simps(1)
        ObjectId_example(1) u2, unfolded Let_def]
    obtain description where d: "py_slice 150 (py_or (dict_get ?D ''role'')
              (dict_get_default ?D ''description'' (VStr ''''))) = Inr (VStr description)"
      and r: "admin_edit_content example_env ?req ''jobs'' ''777777777777777777777777''
              (example_db\<lparr>ads_collection := []\<rparr>)
            = (Redirect ''admin_content'',
               (set_collection Jobs [[(''_id'', VOid (replicate 24 7)),
                 (''company_name'', VStr ''Initech''), (''role'', VStr ''Engineer''),
                 (''posted_at'', VTime 1699999000000000), (''admin_id'', VStr ''admin''),
                 (''description'', VStr ''Build &lt;things&gt;''),
                 (''official_link'', VStr ''https://example.org/apply''),
                 (''certification'', VBool False), (''active'', VBool False),
                 (''is_project'', VBool False), (''updated_at'', VTime 1700000000000000)]]
                 (example_db\<lparr>ads_collection := []\<rparr>))\<lparr>ads_collection :=
                    ads_collection (example_db\<lparr>ads_collection := []\<rparr>) @
                     [[(''title'',
                        py_or (dict_get ?D ''company_name'')
                          (py_or (dict_get ?D ''name'') (VStr ''Opportunity''))),
                      (''description'', VStr description),
                      (''image'', dict_get_default ?D ''image'' (VStr '''')),
                      (''link'', dict_get_default ?D ''official_link'' (VStr ''#'')),
                      (''content_type'', VStr ''jobs''),
                      (''content_reference'', VOid (replicate 24 7)),
                      (''active'', VBool True),
                      (''updated_at'', VTime (utcnow example_env)),
                      (''admin_id'', VStr ''admin'')] @
                      [(''clicks'', VInt 0), (''impressions'', VInt 0),
                       (''posted_at'', VTime (utcnow example_env)),
                       (''_id'', VOid (new_object_id example_env 0))]]\<rparr>)"
      using jobs on none by blast
    have descr: "description = ''Engineer''"
      using d e(1) by simp
    show ?thesis
      by (simp add: r e descr env)
  qed
  have c: "ads_collection (snd (admin_edit_content example_env
          \<lparr>form = [(''role'', ''Trainee'')], image_file = None\<rparr> ''jobs''
          ''777777777777777777777777'' example_db)) = []"
  proof -
    from edit_promotion_contract [OF admin_example collection_map_simps(1)
        ObjectId_example(1) u3, unfolded Let_def]
    have "admin_edit_content example_env
          \<lparr>form = [(''role'', ''Trainee'')], image_file = None\<rparr> ''jobs''
          ''777777777777777777777777'' example_db
       = (Redirect ''admin_content'',
          (set_collection Jobs [[(''_id'', VOid (replicate 24 7)),
                 (''company_name'', VStr ''Acme''), (''role'', VStr ''Trainee''),
                 (''posted_at'', VTime 1699999000000000), (''admin_id'', VStr ''admin''),
                 (''certification'', VBool False), (''active'', VBool False),
                 (''is_project'', VBool False), (''updated_at'', VTime 1700000000000000)]]
             example_db)\<lparr>ads_collection :=
             filter (\<lambda>a. map_of a ''content_reference'' \<noteq> Some (VOid (replicate 24 7)))
               (ads_collection example_db)\<rparr>)"
      using jobs off by blast
    then show ?thesis
      by (simp add: example_db_def example_ad_def)
  qed
  have d: "ads_collection (snd (admin_edit_content example_env
          \<lparr>form = [(''name'', ''Manual''), (''promote_as_ad'', ''on'')], image_file = None\<rparr>
          ''websites'' ''888888888888888888888888'' example_db)) = [example_ad]"
  proof -
    have ws: "''websites'' \<in> set [''roadmaps'', ''websites'']"
      by simp
    from edit_promotion_contract [OF admin_example collection_map_simps(6)
        ObjectId_example(4) u4, unfolded Let_def]
    have "admin_edit_content example_env
          \<lparr>form = [(''name'', ''Manual''), (''promote_as_ad'', ''on'')], image_file = None\<rparr>
          ''websites'' ''888888888888888888888888'' example_db
        = (Redirect ''admin_content'',
           set_collection Websites
             [[(''_id'', VOid (replicate 24 8)), (''name'', VStr ''Manual''),
               (''posted_at'', VTime 1699990000000000), (''admin_id'', VStr ''admin''),
               (''certification'', VBool False), (''active'', VBool False),
               (''is_project'', VBool False), (''updated_at'', VTime 1700000000000000)]]
             example_db)"
      using ws by blast
    then show ?thesis
      by (simp add: example_db_def)
  qed
  from a b c d show ?thesis
    by (intro conjI)
qed

text \<open>
  The claim as stated, for every content item, fails for a partner website: the edit
  with the flag set inserts no ad, and the edit with the flag cleared leaves the ad that
  refers to the website in place.
\<close>

theorem edit_promotion_counterexample:
  "map_of (form \<lparr>form = [(''name'', ''Docs''), (''promote_as_ad'', ''on'')], image_file = None\<rparr>)
       ''promote_as_ad'' = Some ''on''
   \<and> list_all (\<lambda>ad. map_of ad ''content_reference'' \<noteq> Some (VOid (replicate 24 8)))
        (ads_collection example_db)
   \<and> fst (admin_edit_content example_env
        \<lparr>form = [(''name'', ''Docs''), (''promote_as_ad'', ''on'')], image_file = None\<rparr>
        ''websites'' ''888888888888888888888888'' example_db) = Redirect ''admin_content''
   \<and> ads_collection (snd (admin_edit_content example_env
        \<lparr>form = [(''name'', ''Docs''), (''promote_as_ad'', ''on'')], image_file = None\<rparr>
        ''websites'' ''888888888888888888888888'' example_db)) = ads_collection example_db
   \<and> ads_collection (snd (admin_edit_content example_env
        \<lparr>form = [(''name'', ''Docs'')], image_file = None\<rparr>
        ''websites'' ''888888888888888888888888''
        (example_db\<lparr>ads_collection :=
            [[(''_id'', VOid (replicate 24 6)),
              (''content_reference'', VOid (replicate 24 8))]]\<rparr>)))
       = [[(''_id'', VOid (replicate 24 6)), (''content_reference'', VOid (replicate 24 8))]]"
  by code_simp

subsection \<open>Checkboxes on edit\<close>

text \<open>
  The loop of the edit handler: the first round that meets a string turns the three
  checkbox fields into booleans, every later such round stores \<^verbatim>\<open>False\<close> in all
  three. So a form with two text fields besides the checkboxes and the promotion flag
  always stores \<^verbatim>\<open>False\<close>, whatever the checkboxes sent.
\<close>

lemma checkbox_or_false_lookup:
  "map_of (checkbox_or_false k d) k' =
     (if k' = k then Some (VBool (map_of d k = Some (VStr ''on''))) else map_of d k')"
  by (simp add: checkbox_or_false_def AList.update_conv')

lemma edit_key_runs:
  assumes "map_of d key = Some (VStr s)"
  shows "checkboxes (\<lambda>v. \<exists>b. v = VBool b) (edit_key key d)"
  using assms
  by (simp add: edit_key_def checkboxes_def checkbox_or_false_lookup)

lemma edit_key_second_run:
  assumes "map_of d key = Some (VStr s)" and "checkboxes (\<lambda>v. \<exists>b. v = VBool b) d"
  shows "checkboxes (\<lambda>v. v = VBool False) (edit_key key d)"
proof -
  have key: "key \<noteq> ''certification''" "key \<noteq> ''active''" "key \<noteq> ''is_project''"
    using assms by (auto simp: checkboxes_def split: option.splits)
  obtain t where t: "set_default_value (VStr (sanitize_input s)) = VStr t"
    using set_default_value_str by blast
  show ?thesis
    using assms key
    by (auto simp: edit_key_def checkboxes_def checkbox_or_false_lookup AList.update_conv' t
        split: option.splits)
qed

lemma edit_key_keeps_false:
  assumes "checkboxes (\<lambda>v. v = VBool False) d"
  shows "checkboxes (\<lambda>v. v = VBool False) (edit_key key d)"
proof (cases "string_field key d")
  case True
  then obtain s where s: "map_of d key = Some (VStr s)"
    by (auto simp: string_field_def split: option.splits val.splits)
  have "checkboxes (\<lambda>v. \<exists>b. v = VBool b) d"
    using assms by (auto simp: checkboxes_def split: option.splits)
  then show ?thesis
    using s by (rule edit_key_second_run [rotated])
next
  case False
  then have "edit_key key d = d"
    by (auto simp: edit_key_def string_field_def split: option.splits val.splits)
  then show ?thesis
    using assms by simp
qed

lemma edit_key_keeps_bool:
  assumes "checkboxes (\<lambda>v. \<exists>b. v = VBool b) d"
  shows "checkboxes (\<lambda>v. \<exists>b. v = VBool b) (edit_key key d)"
proof (cases "string_field key d")
  case True
  then obtain s where s: "map_of d key = Some (VStr s)"
    by (auto simp: string_field_def split: option.splits val.splits)
  then show ?thesis
    by (rule edit_key_runs)
next
  case False
  then have "edit_key key d = d"
    by (auto simp: edit_key_def string_field_def split: option.splits val.splits)
  then show ?thesis
    using assms by simp
qed

lemma edit_key_string_field:
  assumes "string_field k d" and "k \<notin> {''certification'', ''active'', ''is_project''}"
  shows "string_field k (edit_key key d)"
proof (cases "string_field key d")
  case True
  then obtain s where s: "map_of d key = Some (VStr s)"
    by (auto simp: string_field_def split: option.splits val.splits)
  obtain t where t: "set_default_value (VStr (sanitize_input s)) = VStr t"
    using set_default_value_str by blast
  show ?thesis
    using assms s
    by (auto simp: edit_key_def string_field_def checkbox_or_false_lookup AList.update_conv' t
        split: option.splits val.splits)
next
  case False
  then have "edit_key key d = d"
    by (auto simp: edit_key_def string_field_def split: option.splits val.splits)
  then show ?thesis
    using assms by simp
qed

lemma fold_edit_key_keeps_false:
  "checkboxes (\<lambda>v. v = VBool False) d \<Longrightarrow> checkboxes (\<lambda>v. v = VBool False) (fold edit_key ks d)"
  by (induction ks arbitrary: d) (simp_all add: edit_key_keeps_false)

lemma fold_edit_key_one_more:
  assumes "checkboxes (\<lambda>v. \<exists>b. v = VBool b) d" and "k \<in> set ks" and "string_field k d"
    and "k \<notin> {''certification'', ''active'', ''is_project''}"
  shows "checkboxes (\<lambda>v. v = VBool False) (fold edit_key ks d)"
  using assms
proof (induction ks arbitrary: d)
  case Nil
  then show ?case by simp
next
  case (Cons x xs)
  show ?case
  proof (cases "x = k")
    case True
    from Cons.prems(3) obtain s where "map_of d k = Some (VStr s)"
      by (auto simp: string_field_def split: option.splits val.splits)
    then have "checkboxes (\<lambda>v. v = VBool False) (edit_key k d)"
      using Cons.prems(1) by (rule edit_key_second_run)
    then show ?thesis
      using True by (simp add: fold_edit_key_keeps_false)
  next
    case False
    then have "k \<in> set xs"
      using Cons.prems(2) by simp
    moreover have "checkboxes (\<lambda>v. \<exists>b. v = VBool b) (edit_key x d)"
      using Cons.prems(1) by (rule edit_key_keeps_bool)
    moreover have "string_field k (edit_key x d)"
      using Cons.prems(3,4) by (rule edit_key_string_field)
    ultimately show ?thesis
      using Cons.IH Cons.prems(4) by simp
  qed
qed

lemma fold_edit_key_two_fields:
  assumes "k1 \<noteq> k2" and "k1 \<in> set ks" and "k2 \<in> set ks"
    and "string_field k1 d" and "string_field k2 d"
    and "k1 \<notin> {''certification'', ''active'', ''is_project''}"
    and "k2 \<notin> {''certification'', ''active'', ''is_project''}"
  shows "checkboxes (\<lambda>v. v = VBool False) (fold edit_key ks d)"
  using assms
proof (induction ks arbitrary: d)
  case Nil
  then show ?case by simp
next
  case (Cons x xs)
  have run: "\<And>k. string_field k d \<Longrightarrow> checkboxes (\<lambda>v. \<exists>b. v = VBool b) (edit_key k d)"
    by (auto simp: string_field_def split: option.splits val.splits intro: edit_key_runs)
  show ?case
  proof (cases "x = k1")
    case True
    have "checkboxes (\<lambda>v. \<exists>b. v = VBool b) (edit_key x d)"
      using True Cons.prems(4) run by simp
    moreover have "k2 \<in> set xs"
      using True Cons.prems(1,3) by auto
    moreover have "string_field k2 (edit_key x d)"
      using Cons.prems(5,7) by (rule edit_key_string_field)
    ultimately show ?thesis
      using Cons.prems(7) by (simp add: fold_edit_key_one_more)
  next
    case False
    note not_k1 = this
    show ?thesis
    proof (cases "x = k2")
      case True
      have "checkboxes (\<lambda>v. \<exists>b. v = VBool b) (edit_key x d)"
        using True Cons.prems(5) run by simp
      moreover have "k1 \<in> set xs"
        using not_k1 Cons.prems(2) by auto
      moreover have "string_field k1 (edit_key x d)"
        using Cons.prems(4,6) by (rule edit_key_string_field)
      ultimately show ?thesis
        using Cons.prems(6) by (simp add: fold_edit_key_one_more)
    next
      case False
      have "k1 \<in> set xs" "k2 \<in> set xs"
        using not_k1 False Cons.prems(2,3) by auto
      moreover have "string_field k1 (edit_key x d)" "string_field k2 (edit_key x d)"
        using Cons.prems(4,5,6,7) by (auto intro: edit_key_string_field)
      ultimately show ?thesis
        using Cons.IH Cons.prems(1,6,7) by simp
    qed
  qed
qed


lemma string_field_to_dict: "map_of f k = Some v \<Longrightarrow> string_field k (to_dict f)"
  by (simp add: string_field_def to_dict_def map_of_map_snd AList.map_of_clearjunk)

lemma string_field_edit_image: "string_field k d \<Longrightarrow> string_field k (edit_image env req d)"
  by (auto simp: string_field_def edit_image_def AList.update_conv' split: option.splits)

lemma string_field_delete: "k \<noteq> k' \<Longrightarrow> string_field k (AList.delete k' d) = string_field k d"
  by (simp add: string_field_def)

lemma string_field_key: "string_field k d \<Longrightarrow> k \<in> set (map fst d)"
  by (auto simp: string_field_def split: option.splits dest!: map_of_SomeD intro: rev_image_eqI)

lemma checkboxes_update_other:
  "k \<notin> {''certification'', ''active'', ''is_project''} \<Longrightarrow>
     checkboxes P (AList.update k v d) = checkboxes P d"
  by (auto simp: checkboxes_def AList.update_conv')

lemma checkboxes_split_requirements: "checkboxes P (split_requirements d) = checkboxes P d"
  by (simp add: split_requirements_def checkboxes_update_other split: option.splits val.splits)

lemma edit_data_checkboxes_false:
  assumes "k1 \<noteq> k2"
    and "map_of (form req) k1 = Some v1" and "map_of (form req) k2 = Some v2"
    and "k1 \<notin> {''promote_as_ad'', ''certification'', ''active'', ''is_project''}"
    and "k2 \<notin> {''promote_as_ad'', ''certification'', ''active'', ''is_project''}"
  shows "map_of (edit_data env req) ''certification'' = Some (VBool False)
       \<and> map_of (edit_data env req) ''active'' = Some (VBool False)
       \<and> map_of (edit_data env req) ''is_project'' = Some (VBool False)"
proof -
  let ?d = "AList.delete ''promote_as_ad'' (edit_image env req (to_dict (form req)))"
  have s1: "string_field k1 ?d"
    using assms(2,4) by (simp add: string_field_delete string_field_edit_image string_field_to_dict)
  have s2: "string_field k2 ?d"
    using assms(3,5) by (simp add: string_field_delete string_field_edit_image string_field_to_dict)
  have "checkboxes (\<lambda>v. v = VBool False) (fold edit_key (map fst ?d) ?d)"
    using assms(1) string_field_key [OF s1] string_field_key [OF s2] s1 s2
  proof (rule fold_edit_key_two_fields)
    show "k1 \<notin> {''certification'', ''active'', ''is_project''}"
      using assms(4) by simp
    show "k2 \<notin> {''certification'', ''active'', ''is_project''}"
      using assms(5) by simp
  qed
  then have "checkboxes (\<lambda>v. v = VBool False) (edit_data env req)"
    by (simp add: edit_data_def Let_def checkboxes_update_other checkboxes_split_requirements)
  then show ?thesis
    by (auto simp: checkboxes_def split: option.splits)
qed

lemma edit_data_checkboxes_false_example:
  "map_of (edit_data example_env \<lparr>form = example_form, image_file = None\<rparr>) ''certification''
     = Some (VBool False)"
  using edit_data_checkboxes_false [of "''company_name''" "''role''"
      "\<lparr>form = example_form, image_file = None\<rparr>" "''Initech''" "''Engineer''" example_env]
  by (simp add: example_form_def)

text \<open>The content update of an edit goes through whenever the form has no field
  \<^verbatim>\<open>_id\<close>.\<close>

lemma absent_edit_image:
  "k \<noteq> ''image'' \<Longrightarrow> map_of (edit_image env req d) k = None \<longleftrightarrow> map_of d k = None"
  by (auto simp: edit_image_def absent_update split: option.splits)

lemma absent_edit_key:
  assumes "k \<notin> {''certification'', ''active'', ''is_project''}"
  shows "map_of (edit_key key d) k = None \<longleftrightarrow> map_of d k = None"
  using assms
  by (auto simp: edit_key_def checkbox_or_false_lookup absent_update split: option.splits val.splits)

lemma absent_fold_edit:
  "k \<notin> {''certification'', ''active'', ''is_project''} \<Longrightarrow>
     map_of (fold edit_key ks d) k = None \<longleftrightarrow> map_of d k = None"
  by (induction ks arbitrary: d) (simp_all add: absent_edit_key)

lemma absent_edit_data:
  assumes "k \<notin> {''image'', ''promote_as_ad'', ''updated_at'', ''certification'', ''active'',
                  ''is_project''}"
  shows "map_of (edit_data env req) k = None \<longleftrightarrow> map_of (form req) k = None"
  using assms
  by (simp add: edit_data_def Let_def absent_split_requirements absent_update absent_fold_edit
      absent_edit_image absent_to_dict)

lemma update_one_set_total:
  "map_of fs ''_id'' = None \<Longrightarrow> \<exists>m coll'. update_one q (set_op fs) coll = Inr (m, coll')"
  by (induction coll) (auto simp: set_op_def)

lemma edit_update_succeeds:
  "map_of (form req) ''_id'' = None \<Longrightarrow>
     \<exists>m coll'. update_one q (set_op (edit_data env req)) coll = Inr (m, coll')"
  by (rule update_one_set_total) (simp add: absent_edit_data)

text \<open>
  Claim C6 says that an edit stores each of \<^verbatim>\<open>certification\<close>, \<^verbatim>\<open>active\<close>
  and \<^verbatim>\<open>is_project\<close> as true exactly when the form sent \<^verbatim>\<open>on\<close>. The code
  does so only when the loop body runs once: the checkbox blocks stand inside the loop
  over the form's keys, and from the second string-valued key on they compare the boolean
  of the round before with \<^verbatim>\<open>'on'\<close>. Editing the example job with the form
  \<^verbatim>\<open>company_name=Acme, role=Intern, certification=on\<close> stores
  \<^verbatim>\<open>certification = False\<close>; with the single other field \<^verbatim>\<open>company_name\<close>
  the same checkbox is stored as \<^verbatim>\<open>True\<close>.
\<close>

theorem edit_checkbox_lost:
  "map_of (form \<lparr>form = [(''company_name'', ''Acme''), (''role'', ''Intern''),
                          (''certification'', ''on'')], image_file = None\<rparr>)
      ''certification'' = Some ''on''
   \<and> fst (admin_edit_content example_env
        \<lparr>form = [(''company_name'', ''Acme''), (''role'', ''Intern''),
                  (''certification'', ''on'')], image_file = None\<rparr>
        ''jobs'' ''777777777777777777777777'' example_db) = Redirect ''admin_content''
   \<and> map (\<lambda>d. map_of d ''certification'')
        (jobs_collection (snd (admin_edit_content example_env
          \<lparr>form = [(''company_name'', ''Acme''), (''role'', ''Intern''),
                    (''certification'', ''on'')], image_file = None\<rparr>
          ''jobs'' ''777777777777777777777777'' example_db)))
       = [Some (VBool False)]
   \<and> map (\<lambda>d. map_of d ''certification'')
        (jobs_collection (snd (admin_edit_content example_env
          \<lparr>form = [(''company_name'', ''Acme''), (''certification'', ''on'')],
            image_file = None\<rparr>
          ''jobs'' ''777777777777777777777777'' example_db)))
       = [Some (VBool True)]"
  by code_simp

subsection \<open>Failed image upload\<close>

text \<open>
  Claim C7 says that a failed upload leaves the \<^verbatim>\<open>image\<close> field unset on create
  and on update. The update tests \<^verbatim>\<open>if image_url\<close> before it stores the URL; the
  create stores whatever the upload returned. With the image service down and the file
  \<^verbatim>\<open>logo.png\<close> supplied, the created job is stored with \<^verbatim>\<open>image = None\<close>,
  while the same request as an edit does not touch the field.
\<close>

theorem create_failed_upload_stores_null:
  "upload_to_cloudinary example_env ''logo.png'' = None
   \<and> fst (admin_add_content example_env
        \<lparr>form = [(''company_name'', ''Initech'')], image_file = Some ''logo.png''\<rparr>
        ''jobs'' example_db) = Redirect ''admin_content''
   \<and> map (\<lambda>d. map_of d ''image'')
        (jobs_collection (snd (admin_add_content example_env
          \<lparr>form = [(''company_name'', ''Initech'')], image_file = Some ''logo.png''\<rparr>
          ''jobs'' example_db)))
       = [None, Some VNone]
   \<and> map (\<lambda>d. map_of d ''image'')
        (jobs_collection (snd (admin_edit_content example_env
          \<lparr>form = [(''company_name'', ''Initech'')], image_file = Some ''logo.png''\<rparr>
          ''jobs'' ''777777777777777777777777'' example_db)))
       = [None]"
  by code_simp

subsection \<open>The ad derived on create\<close>

text \<open>
  Claim C9 says that the derived ad's description is truncated to about 100 characters.
  In \<^verbatim>\<open>data.get('role') or data.get('description', 'N/A')[:100]\<close> only the
  description is sliced: a role, when given, is taken whole (the edit handler slices
  the whole disjunction). Creating a promoted job whose role has 101 characters gives an
  ad whose description has 101 characters. The title and the link follow the claim.
\<close>

theorem create_ad_description_not_truncated:
  "map (\<lambda>d. map_of d ''description'')
        (ads_collection (snd (admin_add_content example_env
          \<lparr>form = [(''company_name'', ''Initech''), (''role'', replicate 101 CHR ''a''),
                    (''description'', ''Short''), (''promote_as_ad'', ''on'')],
            image_file = None\<rparr>
          ''jobs'' example_db)))
       = [None, Some (VStr (replicate 101 CHR ''a''))]
   \<and> length (replicate 101 CHR ''a'') = 101"
  by code_simp

subsection \<open>Listing and pagination\<close>

lemma map_of_exclude_fields:
  "map_of (exclude_fields ks d) k = (if k \<in> set ks then None else map_of d k)"
  by (induction d) (auto simp: exclude_fields_def)

lemma posted_at_key_exclude [simp]:
  "posted_at_key (exclude_fields [''admin_id''] d) = posted_at_key d"
  by (simp add: posted_at_key_def map_of_exclude_fields)










subsection \<open>Relative time\<close>

lemma py_int_floor: "0 \<le> x \<Longrightarrow> py_int x = \<lfloor>x\<rfloor>"
  by (simp add: py_int_def)

lemma spec_unit_seconds_simps [simp]:
  "spec_unit_seconds 0 = 1" "spec_unit_seconds (Suc 0) = 60" "spec_unit_seconds 2 = 3600"
  "spec_unit_seconds 3 = 86400" "spec_unit_seconds 4 = 604800" "spec_unit_seconds 5 = 2592000"
  by (simp_all add: spec_unit_seconds_def)

lemma spec_unit_name_simps [simp]:
  "spec_unit_name (Suc 0) = ''minute''" "spec_unit_name 2 = ''hour''"
  "spec_unit_name 3 = ''day''" "spec_unit_name 4 = ''week''" "spec_unit_name 5 = ''month''"
  by (simp_all add: spec_unit_name_def)

lemma plural_rule: "1 \<le> n \<Longrightarrow> (if n > 1 then a else b) = (if n = (1::int) then b else a)"
  by auto

lemma unit_text:
  assumes "0 < u" and "u \<le> s"
  shows "str_int (py_int (s / u)) @ sep @ (if py_int (s / u) > 1 then ''s'' else '''') @ rest
       = str_int \<lfloor>s / u\<rfloor> @ sep @ (if \<lfloor>s / u\<rfloor> = 1 then '''' else ''s'') @ rest"
proof -
  have "1 \<le> s / u"
    using assms by simp
  then have one: "1 \<le> \<lfloor>s / u\<rfloor>"
    by simp
  have "py_int (s / u) = \<lfloor>s / u\<rfloor>"
    using assms by (simp add: py_int_floor)
  then show ?thesis
    by (simp only: plural_rule [OF one])
qed

lemma time_ago_seconds_spec: "time_ago_seconds s = spec_text (spec_unit s) (spec_count s)"
proof -
  consider "s < 60" | "60 \<le> s" "s < 3600" | "3600 \<le> s" "s < 86400"
    | "86400 \<le> s" "s < 604800" | "604800 \<le> s" "s < 2592000" | "2592000 \<le> s"
    by linarith
  then show ?thesis
  proof cases
    case 1
    then show ?thesis
      by (simp add: time_ago_seconds_def spec_text_def spec_unit_def)
  next
    case 2
    then show ?thesis
      using unit_text [of 60 s "'' minute''" "'' ago''"]
      by (simp add: time_ago_seconds_def spec_text_def spec_unit_def spec_count_def Let_def)
  next
    case 3
    then show ?thesis
      using unit_text [of 3600 s "'' hour''" "'' ago''"]
      by (simp add: time_ago_seconds_def spec_text_def spec_unit_def spec_count_def Let_def)
  next
    case 4
    then show ?thesis
      using unit_text [of 86400 s "'' day''" "'' ago''"]
      by (simp add: time_ago_seconds_def spec_text_def spec_unit_def spec_count_def Let_def)
  next
    case 5
    then show ?thesis
      using unit_text [of 604800 s "'' week''" "'' ago''"]
      by (simp add: time_ago_seconds_def spec_text_def spec_unit_def spec_count_def Let_def)
  next
    case 6
    then show ?thesis
      using unit_text [of 2592000 s "'' month''" "'' ago''"]
      by (simp add: time_ago_seconds_def spec_text_def spec_unit_def spec_count_def Let_def)
  qed
qed

lemma spec_unit_mono: "s \<le> t \<Longrightarrow> spec_unit s \<le> spec_unit t"
  by (simp add: spec_unit_def)

lemma spec_unit_zero: "spec_unit s = 0 \<longleftrightarrow> s < 60"
  by (simp add: spec_unit_def)

lemma spec_unit_seconds_pos: "0 < spec_unit_seconds (spec_unit s)"
  by (simp add: spec_unit_def)

lemma spec_count_mono:
  assumes "s \<le> t" and "spec_unit s = spec_unit t"
  shows "spec_count s \<le> spec_count t"
proof (cases "s < 60")
  case True
  then have "t < 60"
    using assms(2) spec_unit_zero by metis
  with True show ?thesis
    by (simp add: spec_count_def)
next
  case False
  then have t: "\<not> t < 60"
    using assms(1) by simp
  have "s / spec_unit_seconds (spec_unit t) \<le> t / spec_unit_seconds (spec_unit t)"
    using assms(1) spec_unit_seconds_pos [of t] by (simp add: divide_right_mono)
  then show ?thesis
    using False t assms(2) by (simp add: spec_count_def floor_mono)
qed

lemma spec_count_positive: "60 \<le> s \<Longrightarrow> 1 \<le> spec_count s"
  by (simp add: spec_count_def spec_unit_def)

lemma time_ago_examples:
  "time_ago_seconds 59 = ''Just now''"
  "time_ago_seconds 60 = ''1 minute ago''"
  "time_ago_seconds 3599 = ''59 minutes ago''"
  "time_ago_seconds 3600 = ''1 hour ago''"
  "time_ago_seconds 86399 = ''23 hours ago''"
  "time_ago_seconds 86400 = ''1 day ago''"
  "time_ago_seconds 604799 = ''6 days ago''"
  "time_ago_seconds 604800 = ''1 week ago''"
  "time_ago_seconds 2591999 = ''4 weeks ago''"
  "time_ago_seconds 2592000 = ''1 month ago''"
  "time_ago_seconds 5184000 = ''2 months ago''"
  by code_simp+

text \<open>
  The function under the decorator. For every elapsed duration \<open>s\<close> in seconds, the body
  of \<^verbatim>\<open>time_ago\<close> computes the text of the bucket of \<open>s\<close>: ``Just now'' below 60 s, otherwise the truncated count of
  the largest unit (minute 60 s, hour 3600 s, day 86400 s, week 604800 s, month
  2592000 s) that fits, with the unit in the singular exactly when the count is 1. The
  bucket grows with the duration: a longer duration has a larger unit, or the same unit
  and a count at least as large. At the boundaries: 59 s is ``Just now'', 60 s is
  ``1 minute ago'', 3599 s is ``59 minutes ago'', 3600 s is ``1 hour ago'', and so on.
\<close>

theorem time_ago_buckets:
  "time_ago_seconds s = spec_text (spec_unit s) (spec_count s)
   \<and> (s \<le> t \<longrightarrow>
        spec_unit s < spec_unit t \<or> (spec_unit s = spec_unit t \<and> spec_count s \<le> spec_count t))
   \<and> (spec_unit s = 0 \<longleftrightarrow> s < 60) 
   \<and> (60 \<le> s \<longrightarrow> 1 \<le> spec_count s \<and> spec_count s = \<lfloor>s / spec_unit_seconds (spec_unit s)\<rfloor>)
   \<and> time_ago_seconds 59 = ''Just now''
   \<and> time_ago_seconds 60 = ''1 minute ago''
   \<and> time_ago_seconds 3599 = ''59 minutes ago''
   \<and> time_ago_seconds 3600 = ''1 hour ago''
   \<and> time_ago_seconds 86400 = ''1 day ago''
   \<and> time_ago_seconds 604800 = ''1 week ago''
   \<and> time_ago_seconds 2592000 = ''1 month ago''
   \<and> time_ago_seconds 5184000 = ''2 months ago''"
proof -
  have mono: "s \<le> t \<longrightarrow>
        spec_unit s < spec_unit t \<or> (spec_unit s = spec_unit t \<and> spec_count s \<le> spec_count t)"
    using spec_unit_mono [of s t] spec_count_mono [of s t] by (auto simp: le_less)
  have cnt: "60 \<le> s \<longrightarrow> 1 \<le> spec_count s \<and> spec_count s = \<lfloor>s / spec_unit_seconds (spec_unit s)\<rfloor>"
    using spec_count_positive [of s] by (simp add: spec_count_def)
  show ?thesis
    using time_ago_seconds_spec [of s] mono cnt spec_unit_zero [of s] time_ago_examples
    by (intro conjI)
qed

theorem time_ago_buckets_witness:
  "time_ago_seconds 3599 = spec_text 1 59
   \<and> spec_unit 3599 = 1 \<and> spec_unit 3600 = 2
   \<and> 1 \<le> spec_count 3599
   \<and> time_ago_seconds 59 = ''Just now''
   \<and> time_ago_seconds 60 = ''1 minute ago''"
proof -
  have u: "spec_unit 3599 = 1" "spec_unit 3600 = 2" "spec_count 3599 = 59"
    by (simp_all add: spec_unit_def spec_count_def)
  have le: "(3599::real) \<le> 3600" "(60::real) \<le> 3599"
    by simp_all
  show ?thesis
    using time_ago_buckets [of 3599 3600] u le by simp
qed

lemma time_ago_stored:
  "map_of (snd (time_ago env posted_at cache)) posted_at = Some (fst (time_ago env posted_at cache))"
  by (simp add: time_ago_def Let_def split: option.splits)

lemma time_ago_hit:
  "map_of cache posted_at = Some result \<Longrightarrow> fst (time_ago env posted_at cache) = result"
  by (simp add: time_ago_def)

lemma time_ago_miss:
  "map_of cache posted_at = None \<Longrightarrow>
     fst (time_ago env posted_at cache) =
       spec_text (spec_unit (total_seconds (utcnow env - posted_at)))
                 (spec_count (total_seconds (utcnow env - posted_at)))"
  by (simp add: time_ago_def time_ago_wrapped_def time_ago_seconds_spec Let_def)

lemma time_ago_again:
  "fst (time_ago later posted_at (snd (time_ago env posted_at cache)))
     = fst (time_ago env posted_at cache)"
  using time_ago_hit [OF time_ago_stored] .

text \<open>
  Claim C5 says that \<^verbatim>\<open>time_ago\<close> returns the bucket text of the elapsed duration.
  The function of the source is the cached one: the cache is keyed by the string of the
  posting time alone, while the body reads the current time, so only the first call for
  a posting time computes the text of the elapsed duration (lemma \<open>time_ago_miss\<close>);
  every later call for the same posting time, at whatever instant \<open>later\<close>, returns the
  text of the first call for as long as the entry stays in the cache. For a posting
  1000 s old the first call gives ``16 minutes ago''; the call a day later, 87400 s after
  the posting, gives ``16 minutes ago'' again, where the bucket text is ``1 day ago''.
\<close>

theorem time_ago_stale:
  "fst (time_ago later posted_at (snd (time_ago env posted_at cache)))
     = fst (time_ago env posted_at cache)
   \<and> time_ago example_env 1699999000000000 []
       = (''16 minutes ago'', [(1699999000000000, ''16 minutes ago'')])
   \<and> time_ago (example_env\<lparr>utcnow := 1700086400000000\<rparr>) 1699999000000000
         [(1699999000000000, ''16 minutes ago'')]
       = (''16 minutes ago'', [(1699999000000000, ''16 minutes ago'')])
   \<and> total_seconds (utcnow (example_env\<lparr>utcnow := 1700086400000000\<rparr>) - 1699999000000000)
       = 87400
   \<and> time_ago_seconds 87400 = ''1 day ago''
   \<and> spec_text (spec_unit 87400) (spec_count 87400) = ''1 day ago''"
proof -
  have a: "time_ago example_env 1699999000000000 []
       = (''16 minutes ago'', [(1699999000000000, ''16 minutes ago'')])"
    by code_simp
  have b: "time_ago (example_env\<lparr>utcnow := 1700086400000000\<rparr>) 1699999000000000
         [(1699999000000000, ''16 minutes ago'')]
       = (''16 minutes ago'', [(1699999000000000, ''16 minutes ago'')])"
    by code_simp
  have c: "total_seconds (utcnow (example_env\<lparr>utcnow := 1700086400000000\<rparr>) - 1699999000000000)
       = 87400"
    by (simp add: total_seconds_def)
  have d: "time_ago_seconds 87400 = ''1 day ago''"
    by code_simp
  have e: "spec_text (spec_unit 87400) (spec_count 87400) = ''1 day ago''"
    by code_simp
  show ?thesis
    using time_ago_again a b c d e by (intro conjI)
qed

text \<open>The same on the page \<^verbatim>\<open>/jobs\<close>: requested again a day later, it shows the
  example job as posted 16 minutes ago.\<close>

lemma jobs_page_stale:
  "fst (jobs (example_env\<lparr>utcnow := 1700086400000000\<rparr>) 1 example_db
          (snd (jobs example_env 1 example_db [])))
     = Rendered ([[(''_id'', VOid (replicate 24 7)), (''company_name'', VStr ''Acme''),
                     (''role'', VStr ''Intern''), (''posted_at'', VTime 1699999000000000),
                     (''time_ago'', VStr ''16 minutes ago'')]],
                   \<lparr>page = 1, total_pages = 1, has_prev = False, has_next = False,
                      prev_page = None, next_page = None\<rparr>)"
  by code_simp


subsection \<open>Public reads\<close>

lemma no_admin_id_exclude [simp]: "no_admin_id (map (exclude_fields [''admin_id'']) docs)"
  by (simp add: no_admin_id_def list_all_iff map_of_exclude_fields)

lemma map_of_include_fields:
  "map_of (include_fields ks d) k = (if k = ''_id'' \<or> k \<in> set ks then map_of d k else None)"
  by (induction d) (auto simp: include_fields_def)

lemma no_admin_id_take: "no_admin_id docs \<Longrightarrow> no_admin_id (take n docs)"
  by (auto simp: no_admin_id_def list_all_iff dest: in_set_takeD)

lemma no_admin_id_append [simp]: "no_admin_id (xs @ ys) \<longleftrightarrow> no_admin_id xs \<and> no_admin_id ys"
  by (simp add: no_admin_id_def)

lemma no_admin_id_Cons [simp]:
  "no_admin_id (d # ds) \<longleftrightarrow> map_of d ''admin_id'' = None \<and> no_admin_id ds"
  by (simp add: no_admin_id_def)

lemma no_admin_id_Nil [simp]: "no_admin_id []"
  by (simp add: no_admin_id_def)

lemma with_time_ago_admin_id:
  "with_time_ago env item cache = (Inr item', cache')
     \<Longrightarrow> map_of item' ''admin_id'' = map_of item ''admin_id''"
  by (auto simp: with_time_ago_def AList.update_conv' split: option.splits val.splits prod.splits)

lemma id_to_str_admin_id:
  "id_to_str item = Inr item' \<Longrightarrow> map_of item' ''admin_id'' = map_of item ''admin_id''"
  by (auto simp: id_to_str_def AList.update_conv' split: option.splits)

lemma each_with_time_ago_no_admin_id:
  "each_with_time_ago env items cache = (Inr items', cache')
     \<Longrightarrow> no_admin_id items \<Longrightarrow> no_admin_id items'"
proof (induction items arbitrary: items' cache cache')
  case Nil
  then show ?case by simp
next
  case (Cons item items)
  then show ?case
    by (auto split: sum.splits prod.splits simp: with_time_ago_admin_id)
qed

lemma each_filter_result_no_admin_id:
  "each_filter_result env items cache = (Inr items', cache')
     \<Longrightarrow> no_admin_id items \<Longrightarrow> no_admin_id items'"
proof (induction items arbitrary: items' cache cache')
  case Nil
  then show ?case by simp
next
  case (Cons item items)
  then show ?case
    by (auto split: sum.splits prod.splits simp: with_time_ago_admin_id id_to_str_admin_id)
qed

lemma each_search_result_no_admin_id:
  "each_search_result ty items = Inr items' \<Longrightarrow> no_admin_id items \<Longrightarrow> no_admin_id items'"
proof (induction items arbitrary: items')
  case Nil
  then show ?case by simp
next
  case (Cons item items)
  then show ?case
    by (auto split: sum.splits simp: id_to_str_admin_id AList.update_conv')
qed

lemma find_page_no_admin_id: "find_page q skip coll = Inr items \<Longrightarrow> no_admin_id items"
  by (auto simp: find_page_def split: if_splits)

lemma get_cached_content_no_admin_id:
  "get_cached_content content_type pg st = Inr (items, n) \<Longrightarrow> no_admin_id items"
  by (auto simp: get_cached_content_def find_page_no_admin_id split: option.splits sum.splits)

lemma content_listing_no_admin_id:
  assumes "fst (content_listing env content_type pg st cache) = Rendered (items, p)"
  shows "no_admin_id items"
proof -
  from assms obtain raw n cache' where
    "get_cached_content content_type pg st = Inr (raw, n)"
    "each_with_time_ago env raw cache = (Inr items, cache')"
    by (auto simp: content_listing_def split: sum.splits prod.splits)
  then show ?thesis
    using get_cached_content_no_admin_id each_with_time_ago_no_admin_id by blast
qed

lemma related_content_no_admin_id: "no_admin_id (related_content content_type oid item coll)"
  by (simp add: related_content_def no_admin_id_def list_all_iff map_of_include_fields)
     (auto dest!: in_set_takeD simp: map_of_include_fields)

lemma detail_page_no_admin_id:
  assumes "fst (detail_page env content_type id_str st cache) = Rendered (item, related)"
  shows "map_of item ''admin_id'' = None \<and> no_admin_id related"
  using assms
  by (auto simp: detail_page_def related_content_no_admin_id map_of_exclude_fields
      split: if_splits option.splits sum.splits prod.splits dest!: with_time_ago_admin_id)

lemma filter_content_no_admin_id:
  "fst (filter_content env args pg content_type st cache) = Rendered items \<Longrightarrow> no_admin_id items"
  by (auto simp: filter_content_def split: option.splits sum.splits prod.splits
      dest: find_page_no_admin_id each_filter_result_no_admin_id)

lemma search_fallback_no_admin_id:
  "search_fallback env query field_names ty coll = Inr found \<Longrightarrow> no_admin_id found"
  by (auto simp: search_fallback_def split: option.splits
      dest: each_search_result_no_admin_id)

lemma scored_hits_no_admin_id:
  "no_admin_id (map (\<lambda>h. AList.update ''score'' (fst h) (exclude_fields [''admin_id''] (snd h))) hits)"
  by (simp add: no_admin_id_def list_all_iff AList.update_conv' map_of_exclude_fields)

lemma search_collection_no_admin_id:
  "search_collection env query field_names ty coll = Inr found \<Longrightarrow> no_admin_id found"
  by (auto simp: search_collection_def split: sum.splits
      dest: search_fallback_no_admin_id each_search_result_no_admin_id [OF _ scored_hits_no_admin_id])

lemma search_no_admin_id: "search env args st = Rendered items \<Longrightarrow> no_admin_id items"
  by (auto simp: search_def Let_def split: if_splits sum.splits
      dest: search_collection_no_admin_id)

lemma public_ad_admin_id:
  "public_ad ad = Inr ad' \<Longrightarrow> map_of ad' ''admin_id'' = map_of ad ''admin_id''"
  by (auto simp: public_ad_def Let_def AList.update_conv' split: sum.splits option.splits
      dest: id_to_str_admin_id)

lemma each_public_ad_no_admin_id:
  "each_public_ad ads = Inr ads' \<Longrightarrow> no_admin_id ads \<Longrightarrow> no_admin_id ads'"
proof (induction ads arbitrary: ads')
  case Nil
  then show ?case by simp
next
  case (Cons ad ads)
  then show ?case
    by (auto split: sum.splits simp: public_ad_admin_id)
qed

lemma get_ads_no_admin_id: "no_admin_id (get_ads env st)"
proof -
  have "no_admin_id (map (include_fields [''title'', ''description'', ''image'', ''link'', ''clicks''])
          (sample env 5 (filter (field_is ''active'' (VBool True)) (ads_collection st))))"
    by (simp add: no_admin_id_def list_all_iff map_of_include_fields)
  then show ?thesis
    by (auto simp: get_ads_def split: sum.splits dest: each_public_ad_no_admin_id)
qed


text \<open>
  Claim C10. Every document that a public read returns is without the field
  \<^verbatim>\<open>admin_id\<close>: the cached listing and the four listing pages, the roadmaps,
  websites and projects pages, the detail page (the item and its related items), the
  filter API, the search API (text search and fallback) and the ads API, whatever the
  database and the cache of \<^verbatim>\<open>time_ago\<close> hold and whatever the search, the
  regular expressions and the sampling of the server select.
\<close>

theorem public_reads_hide_admin_id:
  "(\<forall>items n. get_cached_content content_type pg st = Inr (items, n) \<longrightarrow> no_admin_id items)
   \<and> (\<forall>items p. fst (jobs env pg st cache) = Rendered (items, p) \<longrightarrow> no_admin_id items)
   \<and> (\<forall>items p. fst (workshops env pg st cache) = Rendered (items, p) \<longrightarrow> no_admin_id items)
   \<and> (\<forall>items p. fst (courses env pg st cache) = Rendered (items, p) \<longrightarrow> no_admin_id items)
   \<and> (\<forall>items p. fst (hackathons env pg st cache) = Rendered (items, p) \<longrightarrow> no_admin_id items)
   \<and> (\<forall>items. roadmaps env st = Rendered items \<longrightarrow> no_admin_id items)
   \<and> (\<forall>items. websites st = Rendered items \<longrightarrow> no_admin_id items)
   \<and> (\<forall>items. our_projects st = Rendered items \<longrightarrow> no_admin_id items)
   \<and> (\<forall>item related.
         fst (detail_page env detail_type id_str st cache) = Rendered (item, related) \<longrightarrow>
         map_of item ''admin_id'' = None \<and> no_admin_id related)
   \<and> (\<forall>items. fst (filter_content env args pg content_type st cache) = Rendered items \<longrightarrow>
         no_admin_id items)
   \<and> (\<forall>items. search env args st = Rendered items \<longrightarrow> no_admin_id items)
   \<and> no_admin_id (get_ads env st)"
proof -
  have listing: "\<forall>items n. get_cached_content content_type pg st = Inr (items, n) \<longrightarrow> no_admin_id items"
    using get_cached_content_no_admin_id by blast
  have pages: "\<forall>items p. fst (jobs env pg st cache) = Rendered (items, p) \<longrightarrow> no_admin_id items"
    "\<forall>items p. fst (workshops env pg st cache) = Rendered (items, p) \<longrightarrow> no_admin_id items"
    "\<forall>items p. fst (courses env pg st cache) = Rendered (items, p) \<longrightarrow> no_admin_id items"
    "\<forall>items p. fst (hackathons env pg st cache) = Rendered (items, p) \<longrightarrow> no_admin_id items"
    unfolding jobs_def workshops_def courses_def hackathons_def
    using content_listing_no_admin_id by blast+
  have plain: "\<forall>items. roadmaps env st = Rendered items \<longrightarrow> no_admin_id items"
    "\<forall>items. websites st = Rendered items \<longrightarrow> no_admin_id items"
    "\<forall>items. our_projects st = Rendered items \<longrightarrow> no_admin_id items"
    by (auto simp: roadmaps_def websites_def our_projects_def)
  have detail: "\<forall>item related.
         fst (detail_page env detail_type id_str st cache) = Rendered (item, related) \<longrightarrow>
         map_of item ''admin_id'' = None \<and> no_admin_id related"
    using detail_page_no_admin_id by blast
  have api: "\<forall>items. fst (filter_content env args pg content_type st cache) = Rendered items \<longrightarrow>
         no_admin_id items"
    "\<forall>items. search env args st = Rendered items \<longrightarrow> no_admin_id items"
    using filter_content_no_admin_id search_no_admin_id by blast+
  from listing pages plain detail api get_ads_no_admin_id show ?thesis
    by (intro conjI)
qed

theorem public_reads_hide_admin_id_witness:
  "map_of example_job ''admin_id'' = Some (VStr ''admin'')
   \<and> fst (jobs example_env 1 example_db [])
       = Rendered ([[(''_id'', VOid (replicate 24 7)), (''company_name'', VStr ''Acme''),
                     (''role'', VStr ''Intern''), (''posted_at'', VTime 1699999000000000),
                     (''time_ago'', VStr ''16 minutes ago'')]],
                   \<lparr>page = 1, total_pages = 1, has_prev = False, has_next = False,
                      prev_page = None, next_page = None\<rparr>)
   \<and> no_admin_id [[(''_id'', VOid (replicate 24 7)), (''company_name'', VStr ''Acme''),
                     (''role'', VStr ''Intern''), (''posted_at'', VTime 1699999000000000),
                     (''time_ago'', VStr ''16 minutes ago'')]]
   \<and> search example_env [(''q'', ''Acme'')] example_db
       = Rendered [[(''_id'', VStr ''777777777777777777777777''),
                    (''company_name'', VStr ''Acme''), (''role'', VStr ''Intern''),
                    (''posted_at'', VTime 1699999000000000), (''type'', VStr ''job'')]]
   \<and> no_admin_id [[(''_id'', VStr ''777777777777777777777777''),
                    (''company_name'', VStr ''Acme''), (''role'', VStr ''Intern''),
                    (''posted_at'', VTime 1699999000000000), (''type'', VStr ''job'')]]
   \<and> get_ads example_env example_db
       = [[(''_id'', VStr ''999999999999999999999999''), (''title'', VStr ''Acme''),
           (''clicks'', VInt 5), (''description'', VStr []), (''image'', VStr []),
           (''link'', VStr ''#'')]]
   \<and> no_admin_id (get_ads example_env example_db)"
proof -
  have j: "fst (jobs example_env 1 example_db [])
       = Rendered ([[(''_id'', VOid (replicate 24 7)), (''company_name'', VStr ''Acme''),
                     (''role'', VStr ''Intern''), (''posted_at'', VTime 1699999000000000),
                     (''time_ago'', VStr ''16 minutes ago'')]],
                   \<lparr>page = 1, total_pages = 1, has_prev = False, has_next = False,
                      prev_page = None, next_page = None\<rparr>)"
    by code_simp
  have s: "search example_env [(''q'', ''Acme'')] example_db
       = Rendered [[(''_id'', VStr ''777777777777777777777777''),
                    (''company_name'', VStr ''Acme''), (''role'', VStr ''Intern''),
                    (''posted_at'', VTime 1699999000000000), (''type'', VStr ''job'')]]"
    by code_simp
  have a: "get_ads example_env example_db
       = [[(''_id'', VStr ''999999999999999999999999''), (''title'', VStr ''Acme''),
           (''clicks'', VInt 5), (''description'', VStr []), (''image'', VStr []),
           (''link'', VStr ''#'')]]"
    by code_simp
  have admin: "map_of example_job ''admin_id'' = Some (VStr ''admin'')"
    by (simp add: example_job_def)
  note hide = public_reads_hide_admin_id [of "''jobs''" 1 example_db example_env "[]" "''job''"
      "''777777777777777777777777''" "[(''q'', ''Acme'')]"]
  have "no_admin_id [[(''_id'', VOid (replicate 24 7)), (''company_name'', VStr ''Acme''),
                     (''role'', VStr ''Intern''), (''posted_at'', VTime 1699999000000000),
                     (''time_ago'', VStr ''16 minutes ago'')]]"
    using hide j by blast
  moreover have "no_admin_id [[(''_id'', VStr ''777777777777777777777777''),
                    (''company_name'', VStr ''Acme''), (''role'', VStr ''Intern''),
                    (''posted_at'', VTime 1699999000000000), (''type'', VStr ''job'')]]"
    using hide s by blast
  moreover have "no_admin_id (get_ads example_env example_db)"
    using hide by blast
  ultimately show ?thesis
    using j s a admin by (intro conjI)
qed

end
